theory Spec2Isabelle
  imports Complex_Main "HOL-Library.Char_ord" "HOL-Library.List_Lexorder"
begin

section \<open>Python values, exceptions and the library\<close>

text \<open>
  The values that flow through \<^verbatim>\<open>demo_token_flow.py\<close> are what \<^verbatim>\<open>response.json()\<close>,
  \<^verbatim>\<open>os.getenv\<close> and string operations produce: \<^verbatim>\<open>None\<close>, booleans, numbers, strings,
  lists and dictionaries. A dictionary is an association list in insertion order, looked up
  from the front. Strings and byte strings are both \<^typ>\<open>string\<close> (code points 0 to 255).
\<close>

datatype json =
    JNull
  | JBool bool
  | JInt int
  | JFloat real
  | JStr string
  | JArr "json list"
  | JObj "(string \<times> json) list"

type_synonym bytes = string

text \<open>The exceptions the program can see. None of its handlers tells them apart: every
  handler is \<^verbatim>\<open>except Exception\<close>.\<close>

datatype exn =
    ValueError
  | TypeError
  | AttributeError
  | JSONDecodeError
  | BinasciiError
  | UnicodeError
  | TransportError

text \<open>
  The standard library and the random source are not code of this repository: they are
  parameters. \<open>token_urlsafe k\<close> is what the \<open>k\<close>-th call of
  \<^verbatim>\<open>secrets.token_urlsafe(64)\<close> of a run returns.
\<close>

record pylib =
  token_urlsafe :: "nat \<Rightarrow> string"
  sha256 :: "bytes \<Rightarrow> bytes"
  urlsafe_b64encode :: "bytes \<Rightarrow> bytes"
  b64encode :: "bytes \<Rightarrow> bytes"
  urlsafe_b64decode :: "string \<Rightarrow> exn + bytes"
  json_loads :: "bytes \<Rightarrow> exn + json"

text \<open>Truthiness (\<^verbatim>\<open>if x\<close>, \<^verbatim>\<open>not x\<close>, \<^verbatim>\<open>x or y\<close>).\<close>

fun truthy :: "json \<Rightarrow> bool" where
  "truthy JNull = False"
| "truthy (JBool b) = b"
| "truthy (JInt i) = (i \<noteq> 0)"
| "truthy (JFloat r) = (r \<noteq> 0)"
| "truthy (JStr s) = (s \<noteq> [])"
| "truthy (JArr xs) = (xs \<noteq> [])"
| "truthy (JObj kvs) = (kvs \<noteq> [])"

text \<open>\<^verbatim>\<open>d.get(k, default)\<close>: only a dictionary has the method.\<close>

definition dict_get :: "json \<Rightarrow> string \<Rightarrow> json \<Rightarrow> exn + json" where
  "dict_get d k dflt =
     (case d of
        JObj kvs \<Rightarrow> (case map_of kvs k of None \<Rightarrow> Inr dflt | Some v \<Rightarrow> Inr v)
      | _ \<Rightarrow> Inl AttributeError)"

text \<open>\<^verbatim>\<open>os.getenv(name)\<close> is \<^verbatim>\<open>None\<close> or a string.\<close>

definition of_env :: "string option \<Rightarrow> json" where
  "of_env v = (case v of None \<Rightarrow> JNull | Some s \<Rightarrow> JStr s)"

text \<open>What an f-string prints for an environment value.\<close>

definition py_str :: "string option \<Rightarrow> string" where
  "py_str v = (case v of None \<Rightarrow> ''None'' | Some s \<Rightarrow> s)"

text \<open>\<^verbatim>\<open>s.split(sep)\<close> for a one-character separator, and \<^verbatim>\<open>" ".join(xs)\<close>.\<close>

fun split_on :: "char \<Rightarrow> string \<Rightarrow> string list" where
  "split_on c [] = [[]]"
| "split_on c (x # xs) =
     (if x = c then [] # split_on c xs
      else (case split_on c xs of
              [] \<Rightarrow> [[x]]
            | p # ps \<Rightarrow> (x # p) # ps))"

fun join_sp :: "string list \<Rightarrow> string" where
  "join_sp [] = []"
| "join_sp [x] = x"
| "join_sp (x # y # ys) = x @ '' '' @ join_sp (y # ys)"

text \<open>
  \<^verbatim>\<open>b.rstrip(b'=')\<close>, and \<^verbatim>\<open>s.encode()\<close> (UTF-8) on code points below 256.
  The random source and the base64 encoders return ASCII text, on which
  \<^verbatim>\<open>encode('ascii')\<close>, \<^verbatim>\<open>decode('ascii')\<close> and \<^verbatim>\<open>decode()\<close> change nothing and do
  not raise: they are left out.
\<close>

definition rstrip_eq :: "bytes \<Rightarrow> bytes" where
  "rstrip_eq b = rev (dropWhile (\<lambda>c. c = CHR ''='') (rev b))"

definition utf8_encode :: "string \<Rightarrow> bytes" where
  "utf8_encode s =
     concat (map (\<lambda>c. let n = (of_char c :: nat) in
                        if n < 128 then [c]
                        else [char_of (192 + n div 64), char_of (128 + n mod 64)]) s)"

section \<open>Utilities\<close>

text \<open>
  \<^verbatim>\<open>generate_pkce\<close>, lines 84 to 89. The argument \<open>k\<close> says which draw of the random
  source this call makes.
\<close>

definition generate_pkce :: "pylib \<Rightarrow> nat \<Rightarrow> string \<times> string" where
  "generate_pkce lib k =
     (let verifier = token_urlsafe lib k;
          digest = sha256 lib verifier;
          challenge = rstrip_eq (urlsafe_b64encode lib digest)
      in (verifier, challenge))"

text \<open>
  \<^verbatim>\<open>print_token\<close>, lines 98 to 105. Output is not modelled; what is kept is whether the
  expressions it evaluates raise: \<^verbatim>\<open>len(token)\<close> needs a sized value, and \<^verbatim>\<open>token[:100]\<close>
  a sequence (a dictionary with more than 100 keys fails there).
\<close>

definition print_token :: "json \<Rightarrow> exn + unit" where
  "print_token token =
     (case token of
        JStr s \<Rightarrow> Inr ()
      | JArr xs \<Rightarrow> Inr ()
      | JObj kvs \<Rightarrow> (if length kvs > 100 then Inl TypeError else Inr ())
      | _ \<Rightarrow> Inl TypeError)"

text \<open>
  \<^verbatim>\<open>decode_jwt_payload\<close>, lines 108 to 119. \<open>decode_jwt_payload_try\<close> is the body of
  the \<^verbatim>\<open>try\<close>: \<open>Inl\<close> an exception raised in it, \<open>Inr None\<close> when the \<^verbatim>\<open>if\<close> is not
  taken, \<open>Inr (Some v)\<close> when it returns \<open>v\<close>.
\<close>

definition decode_jwt_payload_try :: "pylib \<Rightarrow> json \<Rightarrow> exn + json option" where
  "decode_jwt_payload_try lib token =
     (case token of
        JStr s \<Rightarrow>
          (let parts = split_on CHR ''.'' s in
           if length parts \<ge> 2 then
             (let payload = parts ! 1;
                  payload = payload @ replicate (4 - length payload mod 4) CHR ''='' in
              case urlsafe_b64decode lib payload of
                Inl e \<Rightarrow> Inl e
              | Inr decoded \<Rightarrow>
                  (case json_loads lib decoded of
                     Inl e \<Rightarrow> Inl e
                   | Inr v \<Rightarrow> Inr (Some v)))
           else Inr None)
      | _ \<Rightarrow> Inl AttributeError)"

definition decode_jwt_payload :: "pylib \<Rightarrow> json \<Rightarrow> json" where
  "decode_jwt_payload lib token =
     (case decode_jwt_payload_try lib token of
        Inr (Some v) \<Rightarrow> v
      | _ \<Rightarrow> JObj [])"

text \<open>
  \<^verbatim>\<open>print_jwt_claims\<close>, lines 122 to 130: \<^verbatim>\<open>claims.get\<close> is called on whatever
  \<^verbatim>\<open>decode_jwt_payload\<close> returned, outside any handler.
\<close>

definition print_jwt_claims :: "pylib \<Rightarrow> json \<Rightarrow> exn + json" where
  "print_jwt_claims lib token =
     (let claims = decode_jwt_payload lib token in
      case dict_get claims ''sub'' (JStr ''N/A'') of
        Inl e \<Rightarrow> Inl e
      | Inr _ \<Rightarrow> Inr claims)"

section \<open>Configuration\<close>

text \<open>
  The module constants of lines 34 to 78 are read from the environment once. The
  environment (after \<^verbatim>\<open>load_dotenv\<close>) is a parameter; \<^verbatim>\<open>AGENTS\<close> is the dictionary of
  the source in insertion order, with its literal scope lists.
\<close>

type_synonym env = "string \<Rightarrow> string option"

definition getenv_default :: "env \<Rightarrow> string \<Rightarrow> string \<Rightarrow> string" where
  "getenv_default env name dflt = (case env name of None \<Rightarrow> dflt | Some v \<Rightarrow> v)"

definition BASE_URL :: "env \<Rightarrow> string" where
  "BASE_URL env = getenv_default env ''ASGARDEO_BASE_URL'' ''https://localhost:9443''"

definition AUTHORIZE_URL :: "env \<Rightarrow> string" where
  "AUTHORIZE_URL env = BASE_URL env @ ''/oauth2/authorize''"

definition AUTHN_URL :: "env \<Rightarrow> string" where
  "AUTHN_URL env = BASE_URL env @ ''/oauth2/authn''"

definition TOKEN_URL :: "env \<Rightarrow> string" where
  "TOKEN_URL env = BASE_URL env @ ''/oauth2/token''"

definition CALLBACK_URL :: "env \<Rightarrow> string" where
  "CALLBACK_URL env = getenv_default env ''APP_CALLBACK_URL'' ''http://localhost:8000/callback''"

definition TOKEN_EXCHANGER_CLIENT_ID :: "env \<Rightarrow> string option" where
  "TOKEN_EXCHANGER_CLIENT_ID env = env ''TOKEN_EXCHANGER_CLIENT_ID''"

definition TOKEN_EXCHANGER_CLIENT_SECRET :: "env \<Rightarrow> string option" where
  "TOKEN_EXCHANGER_CLIENT_SECRET env = env ''TOKEN_EXCHANGER_CLIENT_SECRET''"

definition ORCHESTRATOR_CLIENT_ID :: "env \<Rightarrow> string option" where
  "ORCHESTRATOR_CLIENT_ID env = env ''ORCHESTRATOR_CLIENT_ID''"

definition ORCHESTRATOR_CLIENT_SECRET :: "env \<Rightarrow> string option" where
  "ORCHESTRATOR_CLIENT_SECRET env = env ''ORCHESTRATOR_CLIENT_SECRET''"

definition ORCHESTRATOR_AGENT_ID :: "env \<Rightarrow> string option" where
  "ORCHESTRATOR_AGENT_ID env = env ''ORCHESTRATOR_AGENT_ID''"

definition ORCHESTRATOR_AGENT_SECRET :: "env \<Rightarrow> string option" where
  "ORCHESTRATOR_AGENT_SECRET env = env ''ORCHESTRATOR_AGENT_SECRET''"

record agent_cfg =
  agent_id :: "string option"
  agent_secret :: "string option"
  scopes :: "string list"
  audience :: string

definition AGENTS :: "env \<Rightarrow> (string \<times> agent_cfg) list" where
  "AGENTS env =
     [(''hr_agent'',
         \<lparr>agent_id = env ''HR_AGENT_ID'', agent_secret = env ''HR_AGENT_SECRET'',
          scopes = [''hr:read'', ''hr:write''], audience = ''onboarding-api''\<rparr>),
      (''it_agent'',
         \<lparr>agent_id = env ''IT_AGENT_ID'', agent_secret = env ''IT_AGENT_SECRET'',
          scopes = [''it:read'', ''it:write''], audience = ''onboarding-api''\<rparr>),
      (''approval_agent'',
         \<lparr>agent_id = env ''APPROVAL_AGENT_ID'', agent_secret = env ''APPROVAL_AGENT_SECRET'',
          scopes = [''approval:read'', ''approval:write''], audience = ''onboarding-api''\<rparr>),
      (''booking_agent'',
         \<lparr>agent_id = env ''BOOKING_AGENT_ID'', agent_secret = env ''BOOKING_AGENT_SECRET'',
          scopes = [''booking:read'', ''booking:write''], audience = ''onboarding-api''\<rparr>)]"

section \<open>The network\<close>

text \<open>
  A request is what \<^verbatim>\<open>client.post\<close> is given: the URL, the form fields (\<^verbatim>\<open>data=\<close>) or the
  JSON document (\<^verbatim>\<open>json=\<close>), and the headers. The identity provider is a black box: any
  function from the requests made so far and the current request to a reply, which is a
  transport failure (\<^verbatim>\<open>client.post\<close> raises) or a response with a status code and a body
  (\<open>None\<close> when \<^verbatim>\<open>response.json()\<close> raises). The world is the list of requests made so
  far, in order, and the number of draws made from the random source. HTTP clients and
  their cookie jars are part of the provider's view of the history.
\<close>

datatype payload = Form "(string \<times> json) list" | Json json

record request =
  req_url :: string
  req_payload :: payload
  req_headers :: "(string \<times> string) list"

record response =
  status_code :: int
  json_body :: "json option"

datatype reply = Transport_failure | Reply response

type_synonym provider = "request list \<Rightarrow> request \<Rightarrow> reply"

record world =
  trace :: "request list"
  draws :: nat

definition post :: "provider \<Rightarrow> request \<Rightarrow> world \<Rightarrow> (exn + response) \<times> world" where
  "post p r w =
     (case p (trace w) r of
        Transport_failure \<Rightarrow> Inl TransportError
      | Reply resp \<Rightarrow> Inr resp,
      w\<lparr>trace := trace w @ [r]\<rparr>)"

definition response_json :: "response \<Rightarrow> exn + json" where
  "response_json resp = (case json_body resp of None \<Rightarrow> Inl JSONDecodeError | Some v \<Rightarrow> Inr v)"

text \<open>The value of the \<^verbatim>\<open>Authorization\<close> header of lines 164 and 385.\<close>

definition basic_auth :: "pylib \<Rightarrow> string option \<Rightarrow> string option \<Rightarrow> string" where
  "basic_auth lib client_id client_secret =
     ''Basic '' @ b64encode lib (utf8_encode (py_str client_id @ '':'' @ py_str client_secret))"

section \<open>The three-step flow\<close>

text \<open>
  The expression \<^verbatim>\<open>result.get("code") or result.get("authData", {}).get("code")\<close> of lines
  187 and 233.
\<close>

definition code_of_result :: "json \<Rightarrow> exn + json" where
  "code_of_result result =
     (case dict_get result ''code'' JNull of
        Inl e \<Rightarrow> Inl e
      | Inr c \<Rightarrow>
          if truthy c then Inr c
          else (case dict_get result ''authData'' (JObj []) of
                  Inl e \<Rightarrow> Inl e
                | Inr ad \<Rightarrow> dict_get ad ''code'' JNull))"

text \<open>\<^verbatim>\<open>step1_get_flow_id\<close>, lines 141 to 195: the request, what is made of the response,
  and the function. A returned pair is \<open>(flow_id, direct_code)\<close>.\<close>

definition authorize_request ::
  "env \<Rightarrow> pylib \<Rightarrow> string option \<Rightarrow> string option \<Rightarrow> string list \<Rightarrow> string \<Rightarrow> request" where
  "authorize_request env lib client_id client_secret scps code_challenge =
     \<lparr>req_url = AUTHORIZE_URL env,
      req_payload = Form
        [(''client_id'', of_env client_id),
         (''response_type'', JStr ''code''),
         (''redirect_uri'', JStr (CALLBACK_URL env)),
         (''scope'', JStr (join_sp scps)),
         (''response_mode'', JStr ''direct''),
         (''code_challenge'', JStr code_challenge),
         (''code_challenge_method'', JStr ''S256'')],
      req_headers =
        [(''Content-Type'', ''application/x-www-form-urlencoded''),
         (''Accept'', ''application/json''),
         (''Authorization'', basic_auth lib client_id client_secret)]\<rparr>"

definition step1_result :: "response \<Rightarrow> exn + (json \<times> json)" where
  "step1_result resp =
     (case response_json resp of
        Inl e \<Rightarrow> Inl e
      | Inr result \<Rightarrow>
     (case dict_get result ''flowId'' JNull of
        Inl e \<Rightarrow> Inl e
      | Inr flow_id \<Rightarrow>
     (case dict_get result ''flowStatus'' JNull of
        Inl e \<Rightarrow> Inl e
      | Inr flow_status \<Rightarrow>
     (let no_direct_code =
            (if \<not> truthy flow_id then Inl ValueError else Inr (flow_id, JNull)) in
      if flow_status = JStr ''SUCCESS_COMPLETED'' then
        (case code_of_result result of
           Inl e \<Rightarrow> Inl e
         | Inr direct_code \<Rightarrow>
             if truthy direct_code then Inr (JNull, direct_code) else no_direct_code)
      else no_direct_code))))"

definition step1_get_flow_id ::
  "env \<Rightarrow> pylib \<Rightarrow> provider \<Rightarrow> string option \<Rightarrow> string option \<Rightarrow> string list \<Rightarrow> string
     \<Rightarrow> world \<Rightarrow> (exn + (json \<times> json)) \<times> world" where
  "step1_get_flow_id env lib p client_id client_secret scps code_challenge w =
     (case post p (authorize_request env lib client_id client_secret scps code_challenge) w of
        (Inl e, w') \<Rightarrow> (Inl e, w')
      | (Inr resp, w') \<Rightarrow> (step1_result resp, w'))"

text \<open>\<^verbatim>\<open>step2_authenticate_agent\<close>, lines 198 to 240.\<close>

definition authn_request :: "env \<Rightarrow> json \<Rightarrow> string option \<Rightarrow> string option \<Rightarrow> request" where
  "authn_request env flow_id agent_id' agent_secret' =
     \<lparr>req_url = AUTHN_URL env,
      req_payload = Json (JObj
        [(''flowId'', flow_id),
         (''selectedAuthenticator'', JObj
            [(''authenticatorId'', JStr ''QmFzaWNBdXRoZW50aWNhdG9yOkxPQ0FM''),
             (''params'', JObj
                [(''username'', of_env agent_id'),
                 (''password'', of_env agent_secret')])])]),
      req_headers = [(''Content-Type'', ''application/json'')]\<rparr>"

definition step2_result :: "response \<Rightarrow> exn + json" where
  "step2_result resp =
     (case response_json resp of
        Inl e \<Rightarrow> Inl e
      | Inr result \<Rightarrow>
     (case dict_get result ''flowStatus'' JNull of
        Inl e \<Rightarrow> Inl e
      | Inr flow_status \<Rightarrow>
     (case code_of_result result of
        Inl e \<Rightarrow> Inl e
      | Inr code \<Rightarrow> if \<not> truthy code then Inl ValueError else Inr code)))"

definition step2_authenticate_agent ::
  "env \<Rightarrow> provider \<Rightarrow> json \<Rightarrow> string option \<Rightarrow> string option
     \<Rightarrow> world \<Rightarrow> (exn + json) \<times> world" where
  "step2_authenticate_agent env p flow_id agent_id' agent_secret' w =
     (case post p (authn_request env flow_id agent_id' agent_secret') w of
        (Inl e, w') \<Rightarrow> (Inl e, w')
      | (Inr resp, w') \<Rightarrow> (step2_result resp, w'))"

text \<open>
  \<^verbatim>\<open>step3_exchange_code_for_token\<close>, lines 243 to 282. Line 280 slices the token inside
  a \<^verbatim>\<open>print\<close>: \<^verbatim>\<open>access_token[:60]\<close> raises unless the value is a string or a list.
\<close>

definition token_request ::
  "env \<Rightarrow> string option \<Rightarrow> string option \<Rightarrow> json \<Rightarrow> string \<Rightarrow> request" where
  "token_request env client_id client_secret code code_verifier =
     \<lparr>req_url = TOKEN_URL env,
      req_payload = Form
        [(''grant_type'', JStr ''authorization_code''),
         (''client_id'', of_env client_id),
         (''client_secret'', of_env client_secret),
         (''code'', code),
         (''code_verifier'', JStr code_verifier),
         (''redirect_uri'', JStr (CALLBACK_URL env))],
      req_headers = [(''Content-Type'', ''application/x-www-form-urlencoded'')]\<rparr>"

definition step3_result :: "response \<Rightarrow> exn + json" where
  "step3_result resp =
     (if status_code resp \<noteq> 200 then Inl ValueError
      else
     (case response_json resp of
        Inl e \<Rightarrow> Inl e
      | Inr result \<Rightarrow>
     (case dict_get result ''access_token'' JNull of
        Inl e \<Rightarrow> Inl e
      | Inr access_token \<Rightarrow>
          (case access_token of
             JStr s \<Rightarrow> Inr access_token
           | JArr xs \<Rightarrow> Inr access_token
           | _ \<Rightarrow> Inl TypeError))))"

definition step3_exchange_code_for_token ::
  "env \<Rightarrow> provider \<Rightarrow> string option \<Rightarrow> string option \<Rightarrow> json \<Rightarrow> string
     \<Rightarrow> world \<Rightarrow> (exn + json) \<times> world" where
  "step3_exchange_code_for_token env p client_id client_secret code code_verifier w =
     (case post p (token_request env client_id client_secret code code_verifier) w of
        (Inl e, w') \<Rightarrow> (Inl e, w')
      | (Inr resp, w') \<Rightarrow> (step3_result resp, w'))"

text \<open>
  \<^verbatim>\<open>get_actor_token_3step\<close>, lines 285 to 356. \<open>actor_flow\<close> is the function from the
  \<^verbatim>\<open>async with\<close> block on, for the PKCE pair generated at line 308. The \<^verbatim>\<open>client\<close>
  argument is not used by the source and the label is only printed.
\<close>

definition actor_flow ::
  "env \<Rightarrow> pylib \<Rightarrow> provider \<Rightarrow> string option \<Rightarrow> string option \<Rightarrow> string option
     \<Rightarrow> string option \<Rightarrow> string list \<Rightarrow> string \<Rightarrow> string
     \<Rightarrow> world \<Rightarrow> (exn + json) \<times> world" where
  "actor_flow env lib p agent_id' agent_secret' app_client_id app_client_secret scps
       code_verifier code_challenge w =
     (case step1_get_flow_id env lib p app_client_id app_client_secret scps code_challenge w of
        (Inl e, w1) \<Rightarrow> (Inl e, w1)
      | (Inr (flow_id, direct_code), w1) \<Rightarrow>
     (case (if truthy direct_code then (Inr direct_code, w1)
            else step2_authenticate_agent env p flow_id agent_id' agent_secret' w1) of
        (Inl e, w2) \<Rightarrow> (Inl e, w2)
      | (Inr code, w2) \<Rightarrow>
     (case step3_exchange_code_for_token env p app_client_id app_client_secret
             code code_verifier w2 of
        (Inl e, w3) \<Rightarrow> (Inl e, w3)
      | (Inr actor_token, w3) \<Rightarrow>
     (case print_token actor_token of
        Inl e \<Rightarrow> (Inl e, w3)
      | Inr _ \<Rightarrow>
     (case print_jwt_claims lib actor_token of
        Inl e \<Rightarrow> (Inl e, w3)
      | Inr _ \<Rightarrow> (Inr actor_token, w3))))))"

definition get_actor_token_3step ::
  "env \<Rightarrow> pylib \<Rightarrow> provider \<Rightarrow> string option \<Rightarrow> string option \<Rightarrow> string option
     \<Rightarrow> string option \<Rightarrow> string list option \<Rightarrow> world \<Rightarrow> (exn + json) \<times> world" where
  "get_actor_token_3step env lib p agent_id' agent_secret' app_client_id app_client_secret
       scps w =
     (let scps = (case scps of None \<Rightarrow> [''openid''] | Some s \<Rightarrow> s);
          (code_verifier, code_challenge) = generate_pkce lib (draws w)
      in actor_flow env lib p agent_id' agent_secret' app_client_id app_client_secret scps
           code_verifier code_challenge (w\<lparr>draws := Suc (draws w)\<rparr>))"

section \<open>Token exchange\<close>

text \<open>\<^verbatim>\<open>token_exchange_downscope\<close>, lines 363 to 413.\<close>

definition exchange_request :: "env \<Rightarrow> pylib \<Rightarrow> json \<Rightarrow> json \<Rightarrow> string list \<Rightarrow> request" where
  "exchange_request env lib subject_token actor_token target_scopes =
     \<lparr>req_url = TOKEN_URL env,
      req_payload = Form
        [(''grant_type'', JStr ''urn:ietf:params:oauth:grant-type:token-exchange''),
         (''subject_token'', subject_token),
         (''subject_token_type'', JStr ''urn:ietf:params:oauth:token-type:access_token''),
         (''actor_token'', actor_token),
         (''actor_token_type'', JStr ''urn:ietf:params:oauth:token-type:access_token''),
         (''scope'', JStr (join_sp target_scopes))],
      req_headers =
        [(''Content-Type'', ''application/x-www-form-urlencoded''),
         (''Authorization'',
            basic_auth lib (TOKEN_EXCHANGER_CLIENT_ID env) (TOKEN_EXCHANGER_CLIENT_SECRET env))]\<rparr>"

definition exchange_result :: "pylib \<Rightarrow> response \<Rightarrow> exn + json" where
  "exchange_result lib resp =
     (if status_code resp \<noteq> 200 then Inl ValueError
      else
     (case response_json resp of
        Inl e \<Rightarrow> Inl e
      | Inr result \<Rightarrow>
     (case dict_get result ''access_token'' JNull of
        Inl e \<Rightarrow> Inl e
      | Inr exchanged_token \<Rightarrow>
     (case print_token exchanged_token of
        Inl e \<Rightarrow> Inl e
      | Inr _ \<Rightarrow>
     (case print_jwt_claims lib exchanged_token of
        Inl e \<Rightarrow> Inl e
      | Inr _ \<Rightarrow> Inr exchanged_token)))))"

definition token_exchange_downscope ::
  "env \<Rightarrow> pylib \<Rightarrow> provider \<Rightarrow> json \<Rightarrow> json \<Rightarrow> string list
     \<Rightarrow> world \<Rightarrow> (exn + json) \<times> world" where
  "token_exchange_downscope env lib p subject_token actor_token target_scopes w =
     (case post p (exchange_request env lib subject_token actor_token target_scopes) w of
        (Inl e, w') \<Rightarrow> (Inl e, w')
      | (Inr resp, w') \<Rightarrow> (exchange_result lib resp, w'))"

section \<open>The driver\<close>

text \<open>
  \<^verbatim>\<open>main\<close>, lines 420 to 525. What the source prints for a worker is its outcome here:
  \<^verbatim>\<open>[SKIP]\<close>, \<^verbatim>\<open>[ERROR]\<close> with the exception, or the exchanged token. \<open>process_worker\<close>
  is the body of the loop of lines 455 to 497 and \<open>worker_loop\<close> the loop; an early
  \<^verbatim>\<open>return\<close> at line 447 is \<open>Fatal\<close>.
\<close>

datatype outcome = Skipped | Failed exn | Exchanged json

datatype run = Fatal exn | Completed "(string \<times> outcome) list"

definition process_worker ::
  "env \<Rightarrow> pylib \<Rightarrow> provider \<Rightarrow> json \<Rightarrow> string \<times> agent_cfg \<Rightarrow> world \<Rightarrow> outcome \<times> world" where
  "process_worker env lib p orchestrator_actor_token item w =
     (let agent_cfg = snd item;
          agent_id' = agent_id agent_cfg;
          agent_secret' = agent_secret agent_cfg;
          target_scopes = scopes agent_cfg
      in
      if \<not> truthy (of_env agent_id') \<or> \<not> truthy (of_env agent_secret') then (Skipped, w)
      else
        (case get_actor_token_3step env lib p agent_id' agent_secret'
                (TOKEN_EXCHANGER_CLIENT_ID env) (TOKEN_EXCHANGER_CLIENT_SECRET env)
                (Some [''openid'']) w of
           (Inl e, w1) \<Rightarrow> (Failed e, w1)
         | (Inr agent_actor_token, w1) \<Rightarrow>
             (case token_exchange_downscope env lib p orchestrator_actor_token
                     agent_actor_token target_scopes w1 of
                (Inl e, w2) \<Rightarrow> (Failed e, w2)
              | (Inr exchanged_token, w2) \<Rightarrow> (Exchanged exchanged_token, w2))))"

fun worker_loop ::
  "env \<Rightarrow> pylib \<Rightarrow> provider \<Rightarrow> json \<Rightarrow> (string \<times> agent_cfg) list \<Rightarrow> world
     \<Rightarrow> (string \<times> outcome) list \<times> world" where
  "worker_loop env lib p tok [] w = ([], w)"
| "worker_loop env lib p tok (item # items) w =
     (case process_worker env lib p tok item w of
        (out, w1) \<Rightarrow>
          (case worker_loop env lib p tok items w1 of
             (outs, w2) \<Rightarrow> ((fst item, out) # outs, w2)))"

definition main :: "env \<Rightarrow> pylib \<Rightarrow> provider \<Rightarrow> world \<Rightarrow> run \<times> world" where
  "main env lib p w =
     (case get_actor_token_3step env lib p
             (ORCHESTRATOR_AGENT_ID env) (ORCHESTRATOR_AGENT_SECRET env)
             (ORCHESTRATOR_CLIENT_ID env) (ORCHESTRATOR_CLIENT_SECRET env)
             (Some [''openid'']) w of
        (Inl e, w1) \<Rightarrow> (Fatal e, w1)
      | (Inr orchestrator_actor_token, w1) \<Rightarrow>
          (case worker_loop env lib p orchestrator_actor_token (AGENTS env) w1 of
             (outs, w2) \<Rightarrow> (Completed outs, w2)))"

section \<open>Vocabulary of the statements\<close>

text \<open>A form field of a request, and the requests that are token exchanges: those whose
  \<^verbatim>\<open>grant_type\<close> is the token-exchange grant of RFC 8693.\<close>

definition form_field :: "request \<Rightarrow> string \<Rightarrow> json option" where
  "form_field r k = (case req_payload r of Form kvs \<Rightarrow> map_of kvs k | Json j \<Rightarrow> None)"

definition is_exchange_request :: "request \<Rightarrow> bool" where
  "is_exchange_request r =
     (form_field r ''grant_type'' =
        Some (JStr ''urn:ietf:params:oauth:grant-type:token-exchange''))"

text \<open>What a reply leads to, given what a step makes of a response.\<close>

definition on_reply :: "reply \<Rightarrow> (response \<Rightarrow> exn + 'a) \<Rightarrow> exn + 'a" where
  "on_reply rp f = (case rp of Transport_failure \<Rightarrow> Inl TransportError | Reply resp \<Rightarrow> f resp)"

text \<open>The two calls of \<^verbatim>\<open>get_actor_token_3step\<close> in \<^verbatim>\<open>main\<close>: line 434 for the
  orchestrator and line 466 for a worker.\<close>

abbreviation orchestrator_flow :: "env \<Rightarrow> pylib \<Rightarrow> provider \<Rightarrow> world \<Rightarrow> (exn + json) \<times> world" where
  "orchestrator_flow env lib p w \<equiv>
     get_actor_token_3step env lib p (ORCHESTRATOR_AGENT_ID env) (ORCHESTRATOR_AGENT_SECRET env)
       (ORCHESTRATOR_CLIENT_ID env) (ORCHESTRATOR_CLIENT_SECRET env) (Some [''openid'']) w"

abbreviation worker_flow ::
  "env \<Rightarrow> pylib \<Rightarrow> provider \<Rightarrow> string \<times> agent_cfg \<Rightarrow> world \<Rightarrow> (exn + json) \<times> world" where
  "worker_flow env lib p item w \<equiv>
     get_actor_token_3step env lib p (agent_id (snd item)) (agent_secret (snd item))
       (TOKEN_EXCHANGER_CLIENT_ID env) (TOKEN_EXCHANGER_CLIENT_SECRET env) (Some [''openid'']) w"

text \<open>A credential is missing when it is absent from the environment or empty.\<close>

definition missing :: "string option \<Rightarrow> bool" where
  "missing v = (v = None \<or> v = Some [])"

text \<open>The requests a world \<open>w'\<close> has beyond an earlier world \<open>w\<close>.\<close>

definition sent :: "world \<Rightarrow> world \<Rightarrow> request list" where
  "sent w w' = drop (length (trace w)) (trace w')"

text \<open>A provider that answers from a script: its \<open>n\<close>-th reply does not depend on what
  the requests contain.\<close>

definition scripted :: "(nat \<Rightarrow> reply) \<Rightarrow> provider" where
  "scripted tape hist r = tape (length hist)"

text \<open>The requests of one flow: the authorization request with the challenge, then the
  authentication request for a flow identifier if there is one, then the token request with
  a code and the verifier if there is one.\<close>

definition flow_requests ::
  "env \<Rightarrow> pylib \<Rightarrow> string option \<Rightarrow> string option \<Rightarrow> string option \<Rightarrow> string option
     \<Rightarrow> string list \<Rightarrow> json option \<Rightarrow> json option \<Rightarrow> string \<Rightarrow> string \<Rightarrow> request list" where
  "flow_requests env lib aid asec cid cs scps fid code v ch =
     authorize_request env lib cid cs scps ch #
     (case fid of None \<Rightarrow> [] | Some f \<Rightarrow> [authn_request env f aid asec]) @
     (case code of None \<Rightarrow> [] | Some c \<Rightarrow> [token_request env cid cs c v])"

text \<open>A worker has credentials when neither its identifier nor its secret is missing.\<close>

definition has_credentials :: "string \<times> agent_cfg \<Rightarrow> bool" where
  "has_credentials item =
     (\<not> missing (agent_id (snd item)) \<and> \<not> missing (agent_secret (snd item)))"

text \<open>The world in which the loop, started in \<open>w\<close> over \<open>items\<close>, reaches the worker
  at position \<open>j\<close>: the one the workers before it have left. At \<open>Suc j\<close> it is the
  world that worker's iteration leaves.\<close>

definition world_before ::
  "env \<Rightarrow> pylib \<Rightarrow> provider \<Rightarrow> json \<Rightarrow> (string \<times> agent_cfg) list \<Rightarrow> nat \<Rightarrow> world \<Rightarrow> world" where
  "world_before env lib p orch items j w = snd (worker_loop env lib p orch (take j items) w)"

text \<open>What the step-1 request of a flow carries, field by field: the fixed scope, the
  application's identifier and its basic authentication header, the challenge, the
  callback URL and the direct response mode.\<close>

definition is_step1_request ::
  "env \<Rightarrow> pylib \<Rightarrow> string option \<Rightarrow> string option \<Rightarrow> string \<Rightarrow> request \<Rightarrow> bool" where
  "is_step1_request env lib client_id client_secret challenge r =
     (req_url r = AUTHORIZE_URL env \<and>
      form_field r ''scope'' = Some (JStr ''openid'') \<and>
      form_field r ''client_id'' = Some (of_env client_id) \<and>
      map_of (req_headers r) ''Authorization'' =
        Some (''Basic '' @
              b64encode lib (utf8_encode (py_str client_id @ '':'' @ py_str client_secret))) \<and>
      form_field r ''code_challenge'' = Some (JStr challenge) \<and>
      form_field r ''redirect_uri'' = Some (JStr (CALLBACK_URL env)) \<and>
      form_field r ''response_mode'' = Some (JStr ''direct''))"

text \<open>The challenge as the specification words it: the base64url text of the SHA-256
  digest of the verifier, without its \<open>=\<close> padding.\<close>

definition strip_padding :: "bytes \<Rightarrow> bytes" where
  "strip_padding b = take (length b - length (takeWhile (\<lambda>c. c = CHR ''='') (rev b))) b"

definition spec_challenge :: "pylib \<Rightarrow> string \<Rightarrow> string" where
  "spec_challenge lib verifier = strip_padding (urlsafe_b64encode lib (sha256 lib verifier))"

text \<open>The authorization code embedded in a response of the provider: the \<^verbatim>\<open>code\<close> entry,
  or the one nested under \<^verbatim>\<open>authData\<close>.\<close>

definition nested_code :: "(string \<times> json) list \<Rightarrow> json option" where
  "nested_code kvs =
     (case map_of kvs ''authData'' of
        Some (JObj ad) \<Rightarrow>
          (case map_of ad ''code'' of
             Some c \<Rightarrow> if truthy c then Some c else None
           | None \<Rightarrow> None)
      | _ \<Rightarrow> None)"

definition embedded_code :: "(string \<times> json) list \<Rightarrow> json option" where
  "embedded_code kvs =
     (case map_of kvs ''code'' of
        Some c \<Rightarrow> if truthy c then Some c else nested_code kvs
      | None \<Rightarrow> nested_code kvs)"

section \<open>A concrete environment, library and providers\<close>

text \<open>
  The runs below are evaluated on these. The environment configures both applications,
  the orchestrator, the HR and IT agents, and leaves the approval agent without a secret
  and the booking agent without anything. The library instance draws the verifiers
  \<open>v\<close>, \<open>vv\<close>, \<open>vvv\<close>; its decoders agree with CPython on the one payload used
  (\<^verbatim>\<open>MQ==\<close> is the base64 text of the byte \<^verbatim>\<open>1\<close>, which \<^verbatim>\<open>json.loads\<close> reads as the
  number 1). Provider \<open>p0\<close> is the stub of the specification's end-to-end scenario;
  \<open>p1\<close> drops the fifth request of a run, \<open>p2\<close> every request, \<open>p3\<close> refuses the
  seventh with status 400, and \<open>p_direct\<close> answers the authorization request with a code.
\<close>

definition env0 :: env where
  "env0 = [''TOKEN_EXCHANGER_CLIENT_ID'' \<mapsto> ''te-app'', ''TOKEN_EXCHANGER_CLIENT_SECRET'' \<mapsto> ''te-secret'',
           ''ORCHESTRATOR_CLIENT_ID'' \<mapsto> ''orch-app'', ''ORCHESTRATOR_CLIENT_SECRET'' \<mapsto> ''orch-secret'',
           ''ORCHESTRATOR_AGENT_ID'' \<mapsto> ''orch'', ''ORCHESTRATOR_AGENT_SECRET'' \<mapsto> ''orch-pw'',
           ''HR_AGENT_ID'' \<mapsto> ''hr'', ''HR_AGENT_SECRET'' \<mapsto> ''hr-pw'',
           ''IT_AGENT_ID'' \<mapsto> ''it'', ''IT_AGENT_SECRET'' \<mapsto> ''it-pw'',
           ''APPROVAL_AGENT_ID'' \<mapsto> ''approval'']"

definition lib0 :: pylib where
  "lib0 = \<lparr>token_urlsafe = (\<lambda>k. replicate (Suc k) CHR ''v''),
           sha256 = (\<lambda>b. b),
           urlsafe_b64encode = (\<lambda>b. b @ ''==''),
           b64encode = (\<lambda>b. b),
           urlsafe_b64decode = (\<lambda>s. if s = ''MQ=='' then Inr ''1'' else Inl BinasciiError),
           json_loads = (\<lambda>b. if b = ''1'' then Inr (JInt 1) else Inl JSONDecodeError)\<rparr>"

definition ok :: "json \<Rightarrow> reply" where
  "ok body = Reply \<lparr>status_code = 200, json_body = Some body\<rparr>"

definition p0 :: provider where
  "p0 hist r =
     (if req_url r = AUTHORIZE_URL env0 then
        ok (JObj [(''flowId'', JStr ''f1''), (''flowStatus'', JStr ''INCOMPLETE'')])
      else if req_url r = AUTHN_URL env0 then
        ok (JObj [(''code'', JStr ''c1''), (''flowStatus'', JStr ''SUCCESS_COMPLETED'')])
      else if is_exchange_request r then ok (JObj [(''access_token'', JStr ''delegated'')])
      else ok (JObj [(''access_token'', JStr ''tok'')]))"

definition w0 :: world where "w0 = \<lparr>trace = [], draws = 0\<rparr>"

definition trace0 :: "request list" where
  "trace0 =
     [authorize_request env0 lib0 (Some ''orch-app'') (Some ''orch-secret'') [''openid''] ''v'',
      authn_request env0 (JStr ''f1'') (Some ''orch'') (Some ''orch-pw''),
      token_request env0 (Some ''orch-app'') (Some ''orch-secret'') (JStr ''c1'') ''v'',
      authorize_request env0 lib0 (Some ''te-app'') (Some ''te-secret'') [''openid''] ''vv'',
      authn_request env0 (JStr ''f1'') (Some ''hr'') (Some ''hr-pw''),
      token_request env0 (Some ''te-app'') (Some ''te-secret'') (JStr ''c1'') ''vv'',
      exchange_request env0 lib0 (JStr ''tok'') (JStr ''tok'') [''hr:read'', ''hr:write''],
      authorize_request env0 lib0 (Some ''te-app'') (Some ''te-secret'') [''openid''] ''vvv'',
      authn_request env0 (JStr ''f1'') (Some ''it'') (Some ''it-pw''),
      token_request env0 (Some ''te-app'') (Some ''te-secret'') (JStr ''c1'') ''vvv'',
      exchange_request env0 lib0 (JStr ''tok'') (JStr ''tok'') [''it:read'', ''it:write'']]"

definition p1 :: provider where
  "p1 hist r = (if length hist = 4 then Transport_failure else p0 hist r)"

definition trace1 :: "request list" where
  "trace1 =
     [authorize_request env0 lib0 (Some ''orch-app'') (Some ''orch-secret'') [''openid''] ''v'',
      authn_request env0 (JStr ''f1'') (Some ''orch'') (Some ''orch-pw''),
      token_request env0 (Some ''orch-app'') (Some ''orch-secret'') (JStr ''c1'') ''v'',
      authorize_request env0 lib0 (Some ''te-app'') (Some ''te-secret'') [''openid''] ''vv'',
      authn_request env0 (JStr ''f1'') (Some ''hr'') (Some ''hr-pw''),
      authorize_request env0 lib0 (Some ''te-app'') (Some ''te-secret'') [''openid''] ''vvv'',
      authn_request env0 (JStr ''f1'') (Some ''it'') (Some ''it-pw''),
      token_request env0 (Some ''te-app'') (Some ''te-secret'') (JStr ''c1'') ''vvv'',
      exchange_request env0 lib0 (JStr ''tok'') (JStr ''tok'') [''it:read'', ''it:write'']]"

definition p2 :: provider where
  "p2 hist r = Transport_failure"

definition p_direct :: provider where
  "p_direct hist r =
     (if req_url r = AUTHORIZE_URL env0 then
        ok (JObj [(''flowStatus'', JStr ''SUCCESS_COMPLETED''),
                  (''authData'', JObj [(''code'', JStr ''c9'')])])
      else if req_url r = AUTHN_URL env0 then Transport_failure
      else ok (JObj [(''access_token'', JStr ''tok'')]))"

definition p3 :: provider where
  "p3 hist r =
     (if length hist = 6
      then Reply \<lparr>status_code = 400, json_body = Some (JObj [(''error'', JStr ''invalid_scope'')])\<rparr>
      else p0 hist r)"

text \<open>A provider whose every response is a success carrying the token \<^verbatim>\<open>a.MQ.b\<close>.\<close>

definition p_dotted :: provider where
  "p_dotted hist r = ok (JObj [(''access_token'', JStr ''a.MQ.b'')])"

section \<open>Requests and worlds of the steps\<close>

lemma step1_unfold:
  "step1_get_flow_id env lib p cid cs scps ch w =
     (on_reply (p (trace w) (authorize_request env lib cid cs scps ch)) step1_result,
      w\<lparr>trace := trace w @ [authorize_request env lib cid cs scps ch]\<rparr>)"
  by (simp add: step1_get_flow_id_def post_def on_reply_def split: reply.splits)

lemma step2_unfold:
  "step2_authenticate_agent env p fid aid asec w =
     (on_reply (p (trace w) (authn_request env fid aid asec)) step2_result,
      w\<lparr>trace := trace w @ [authn_request env fid aid asec]\<rparr>)"
  by (simp add: step2_authenticate_agent_def post_def on_reply_def split: reply.splits)

lemma step3_unfold:
  "step3_exchange_code_for_token env p cid cs code v w =
     (on_reply (p (trace w) (token_request env cid cs code v)) step3_result,
      w\<lparr>trace := trace w @ [token_request env cid cs code v]\<rparr>)"
  by (simp add: step3_exchange_code_for_token_def post_def on_reply_def split: reply.splits)

lemma exchange_unfold:
  "token_exchange_downscope env lib p subj act scps w =
     (on_reply (p (trace w) (exchange_request env lib subj act scps)) (exchange_result lib),
      w\<lparr>trace := trace w @ [exchange_request env lib subj act scps]\<rparr>)"
  by (simp add: token_exchange_downscope_def post_def on_reply_def split: reply.splits)

lemmas flow_unfold = actor_flow_def step1_unfold step2_unfold step3_unfold

lemma not_exchange [simp]:
  "\<not> is_exchange_request (authorize_request env lib cid cs scps ch)"
  "\<not> is_exchange_request (authn_request env fid aid asec)"
  "\<not> is_exchange_request (token_request env cid cs code v)"
  by (simp_all add: is_exchange_request_def form_field_def authorize_request_def
      authn_request_def token_request_def)

lemma is_exchange [simp]: "is_exchange_request (exchange_request env lib subj act scps)"
  by (simp add: is_exchange_request_def form_field_def exchange_request_def)

lemma draws_actor_flow [simp]:
  "draws (snd (actor_flow env lib p aid asec cid cs scps v ch w)) = draws w"
  by (simp add: flow_unfold split: sum.splits prod.splits)

text \<open>A flow sends the authorization request, then the authentication request or none,
  then the token request or none.\<close>

lemma actor_flow_trace:
  "trace (snd (actor_flow env lib p aid asec cid cs scps v ch w)) =
       trace w @ [authorize_request env lib cid cs scps ch] \<or>
   (\<exists>fid. trace (snd (actor_flow env lib p aid asec cid cs scps v ch w)) =
       trace w @ [authorize_request env lib cid cs scps ch, authn_request env fid aid asec]) \<or>
   (\<exists>code. trace (snd (actor_flow env lib p aid asec cid cs scps v ch w)) =
       trace w @ [authorize_request env lib cid cs scps ch, token_request env cid cs code v]) \<or>
   (\<exists>fid code. trace (snd (actor_flow env lib p aid asec cid cs scps v ch w)) =
       trace w @ [authorize_request env lib cid cs scps ch, authn_request env fid aid asec,
                  token_request env cid cs code v])"
  by (simp add: flow_unfold split: sum.splits prod.splits) blast

lemma get_actor_token_3step_unfold:
  "get_actor_token_3step env lib p aid asec cid cs (Some scps) w =
     actor_flow env lib p aid asec cid cs scps
       (fst (generate_pkce lib (draws w))) (snd (generate_pkce lib (draws w)))
       (w\<lparr>draws := Suc (draws w)\<rparr>)"
  by (simp add: get_actor_token_3step_def split: prod.splits)

lemma flow_sent:
  "\<exists>rs. trace (snd (get_actor_token_3step env lib p aid asec cid cs (Some scps) w)) =
          trace w @ rs \<and> (\<forall>r\<in>set rs. \<not> is_exchange_request r)"
  using actor_flow_trace [of env lib p aid asec cid cs scps
      "fst (generate_pkce lib (draws w))" "snd (generate_pkce lib (draws w))"
      "w\<lparr>draws := Suc (draws w)\<rparr>"]
  unfolding get_actor_token_3step_unfold by (elim disjE exE) simp_all

section \<open>The loop of the driver\<close>

lemma process_worker_unfold:
  "process_worker env lib p orch item w =
     (if missing (agent_id (snd item)) \<or> missing (agent_secret (snd item)) then (Skipped, w)
      else (case worker_flow env lib p item w of
              (Inl e, w1) \<Rightarrow> (Failed e, w1)
            | (Inr actor, w1) \<Rightarrow>
                (case on_reply
                        (p (trace w1) (exchange_request env lib orch actor (scopes (snd item))))
                        (exchange_result lib) of
                   Inl e \<Rightarrow> Failed e
                 | Inr t \<Rightarrow> Exchanged t,
                 w1\<lparr>trace := trace w1 @
                      [exchange_request env lib orch actor (scopes (snd item))]\<rparr>)))"
  by (auto simp add: process_worker_def missing_def of_env_def exchange_unfold Let_def
      split: sum.splits prod.splits option.splits)

lemma world_before_0 [simp]: "world_before env lib p orch items 0 w = w"
  by (simp add: world_before_def)

lemma world_before_Suc:
  "process_worker env lib p orch item w = (out, w1) \<Longrightarrow>
   world_before env lib p orch (item # items) (Suc j) w = world_before env lib p orch items j w1"
  by (simp add: world_before_def split: prod.splits)

lemma process_worker_exchanges:
  assumes "process_worker env lib p orch item w = (out, w')"
  shows "\<exists>rs. trace w' = trace w @ rs \<and>
     (\<forall>i<length rs. is_exchange_request (rs ! i) \<longrightarrow>
        has_credentials item \<and> Suc i = length rs \<and>
        (\<exists>wb actor. worker_flow env lib p item w = (Inr actor, wb) \<and>
           trace wb = trace w @ take i rs \<and>
           rs ! i = exchange_request env lib orch actor (scopes (snd item))))"
proof (cases "missing (agent_id (snd item)) \<or> missing (agent_secret (snd item))")
  case True
  then have "w' = w" using assms by (simp add: process_worker_unfold)
  then show ?thesis by simp
next
  case False
  then have hc: "has_credentials item" by (simp add: has_credentials_def)
  obtain r w1 where f: "worker_flow env lib p item w = (r, w1)"
    by (cases "worker_flow env lib p item w")
  obtain rs where rs: "trace w1 = trace w @ rs" "\<forall>r\<in>set rs. \<not> is_exchange_request r"
    using flow_sent [of env lib p "agent_id (snd item)" "agent_secret (snd item)"
        "TOKEN_EXCHANGER_CLIENT_ID env" "TOKEN_EXCHANGER_CLIENT_SECRET env" "[''openid'']" w] f
    by auto
  show ?thesis
  proof (cases r)
    case (Inl e)
    then have "w' = w1" using assms False f by (simp add: process_worker_unfold)
    then show ?thesis using rs by (intro exI [of _ rs]) auto
  next
    case (Inr actor)
    let ?x = "exchange_request env lib orch actor (scopes (snd item))"
    have t: "trace w' = trace w @ (rs @ [?x])"
      using assms False f Inr rs by (auto simp add: process_worker_unfold)
    have "has_credentials item \<and> Suc i = length (rs @ [?x]) \<and>
        (\<exists>wb actor. worker_flow env lib p item w = (Inr actor, wb) \<and>
           trace wb = trace w @ take i (rs @ [?x]) \<and>
           (rs @ [?x]) ! i = exchange_request env lib orch actor (scopes (snd item)))"
      if "i < length (rs @ [?x])" "is_exchange_request ((rs @ [?x]) ! i)" for i
    proof -
      have "i = length rs"
      proof (rule ccontr)
        assume "i \<noteq> length rs"
        then have "i < length rs" using that(1) by simp
        then have "(rs @ [?x]) ! i \<in> set rs" by (simp add: nth_append)
        then show False using rs(2) that(2) by blast
      qed
      then show ?thesis using f Inr rs(1) hc by simp
    qed
    then show ?thesis using t by blast
  qed
qed

text \<open>Every token exchange of the loop is the last request of the iteration of one worker,
  sent right after that worker's flow has returned a token, and built from that token and
  that worker's scopes.\<close>

lemma worker_loop_exchanges:
  "worker_loop env lib p orch items w = (outs, w') \<Longrightarrow>
   \<exists>rs. trace w' = trace w @ rs \<and>
     (\<forall>i<length rs. is_exchange_request (rs ! i) \<longrightarrow>
        (\<exists>j<length items. has_credentials (items ! j) \<and>
           (\<exists>wb actor.
              worker_flow env lib p (items ! j) (world_before env lib p orch items j w) =
                (Inr actor, wb) \<and>
              trace wb = trace w @ take i rs \<and>
              trace (world_before env lib p orch items (Suc j) w) = trace w @ take (Suc i) rs \<and>
              rs ! i = exchange_request env lib orch actor (scopes (snd (items ! j))))))"
proof (induction items arbitrary: w outs w')
  case Nil
  then show ?case by simp
next
  case (Cons item items)
  obtain out w1 where pw: "process_worker env lib p orch item w = (out, w1)"
    by (cases "process_worker env lib p orch item w")
  obtain outs1 where wl: "worker_loop env lib p orch items w1 = (outs1, w')"
    using Cons.prems pw by (auto split: prod.splits)
  obtain rs1 where rs1: "trace w1 = trace w @ rs1"
    "\<forall>i<length rs1. is_exchange_request (rs1 ! i) \<longrightarrow>
        has_credentials item \<and> Suc i = length rs1 \<and>
        (\<exists>wb actor. worker_flow env lib p item w = (Inr actor, wb) \<and>
           trace wb = trace w @ take i rs1 \<and>
           rs1 ! i = exchange_request env lib orch actor (scopes (snd item)))"
    using process_worker_exchanges [OF pw] by blast
  obtain rs2 where rs2: "trace w' = trace w1 @ rs2"
    "\<forall>i<length rs2. is_exchange_request (rs2 ! i) \<longrightarrow>
        (\<exists>j<length items. has_credentials (items ! j) \<and>
           (\<exists>wb actor.
              worker_flow env lib p (items ! j) (world_before env lib p orch items j w1) =
                (Inr actor, wb) \<and>
              trace wb = trace w1 @ take i rs2 \<and>
              trace (world_before env lib p orch items (Suc j) w1) =
                trace w1 @ take (Suc i) rs2 \<and>
              rs2 ! i = exchange_request env lib orch actor (scopes (snd (items ! j)))))"
    using Cons.IH [OF wl] by blast
  have "\<exists>j<length (item # items). has_credentials ((item # items) ! j) \<and>
           (\<exists>wb actor.
              worker_flow env lib p ((item # items) ! j)
                  (world_before env lib p orch (item # items) j w) = (Inr actor, wb) \<and>
              trace wb = trace w @ take i (rs1 @ rs2) \<and>
              trace (world_before env lib p orch (item # items) (Suc j) w) =
                trace w @ take (Suc i) (rs1 @ rs2) \<and>
              (rs1 @ rs2) ! i =
                exchange_request env lib orch actor (scopes (snd ((item # items) ! j))))"
    if i: "i < length (rs1 @ rs2)" and x: "is_exchange_request ((rs1 @ rs2) ! i)" for i
  proof (cases "i < length rs1")
    case True
    then have "is_exchange_request (rs1 ! i)" using x by (simp add: nth_append)
    then obtain wb actor where "has_credentials item" "Suc i = length rs1"
      "worker_flow env lib p item w = (Inr actor, wb)"
      "trace wb = trace w @ take i rs1"
      "rs1 ! i = exchange_request env lib orch actor (scopes (snd item))"
      using rs1(2) True by blast
    then show ?thesis using True rs1(1) world_before_Suc [OF pw, of items 0]
      by (intro exI [of _ 0]) (auto simp add: nth_append)
  next
    case False
    let ?k = "i - length rs1"
    have k: "?k < length rs2" using i False by simp
    have "is_exchange_request (rs2 ! ?k)" using x False by (simp add: nth_append)
    then obtain j wb actor where j: "j < length items" "has_credentials (items ! j)"
      "worker_flow env lib p (items ! j) (world_before env lib p orch items j w1) =
         (Inr actor, wb)"
      "trace wb = trace w1 @ take ?k rs2"
      "trace (world_before env lib p orch items (Suc j) w1) = trace w1 @ take (Suc ?k) rs2"
      "rs2 ! ?k = exchange_request env lib orch actor (scopes (snd (items ! j)))"
      using rs2(2) k by blast
    have sk: "Suc i - length rs1 = Suc ?k" using False by simp
    show ?thesis using j False rs1(1) world_before_Suc [OF pw, of items j]
        world_before_Suc [OF pw, of items "Suc j"] sk
      by (intro exI [of _ "Suc j"]) (auto simp add: nth_append)
  qed
  then show ?case using rs1(1) rs2(1) by (intro exI [of _ "rs1 @ rs2"]) simp
qed

lemma main_unfold:
  "main env lib p w =
     (case orchestrator_flow env lib p w of
        (Inl e, w1) \<Rightarrow> (Fatal e, w1)
      | (Inr orch, w1) \<Rightarrow>
          (Completed (fst (worker_loop env lib p orch (AGENTS env) w1)),
           snd (worker_loop env lib p orch (AGENTS env) w1)))"
  by (simp add: main_def split: prod.splits sum.splits)

lemma main_exchanges:
  assumes m: "main env lib p w = (res, w')"
    and i: "length (trace w) \<le> i" "i < length (trace w')"
    and x: "is_exchange_request (trace w' ! i)"
  shows "\<exists>orch w1. orchestrator_flow env lib p w = (Inr orch, w1) \<and>
     (\<exists>j<length (AGENTS env). has_credentials (AGENTS env ! j) \<and>
        (\<exists>wb actor.
           worker_flow env lib p (AGENTS env ! j)
               (world_before env lib p orch (AGENTS env) j w1) = (Inr actor, wb) \<and>
           trace wb = take i (trace w') \<and>
           trace (world_before env lib p orch (AGENTS env) (Suc j) w1) =
             take (Suc i) (trace w') \<and>
           trace w' ! i = exchange_request env lib orch actor (scopes (snd (AGENTS env ! j)))))"
proof -
  obtain r w1 where f: "orchestrator_flow env lib p w = (r, w1)"
    by (cases "orchestrator_flow env lib p w")
  obtain rs0 where rs0: "trace w1 = trace w @ rs0" "\<forall>r\<in>set rs0. \<not> is_exchange_request r"
    using flow_sent [of env lib p "ORCHESTRATOR_AGENT_ID env" "ORCHESTRATOR_AGENT_SECRET env"
        "ORCHESTRATOR_CLIENT_ID env" "ORCHESTRATOR_CLIENT_SECRET env" "[''openid'']" w] f
    by auto
  have in0: "\<not> is_exchange_request ((trace w @ rs0) ! k)"
    if "length (trace w) \<le> k" "k < length (trace w @ rs0)" for k
  proof -
    have "(trace w @ rs0) ! k \<in> set rs0" using that by (simp add: nth_append)
    then show ?thesis using rs0(2) by blast
  qed
  show ?thesis
  proof (cases r)
    case (Inl e)
    then have "w' = w1" using m f by (simp add: main_unfold)
    then show ?thesis using in0 [of i] i x rs0(1) by simp
  next
    case (Inr orch)
    obtain outs where wl: "worker_loop env lib p orch (AGENTS env) w1 = (outs, w')"
      using m f Inr by (cases "worker_loop env lib p orch (AGENTS env) w1")
        (simp add: main_unfold)
    obtain rs where rs: "trace w' = trace w1 @ rs"
      "\<forall>i<length rs. is_exchange_request (rs ! i) \<longrightarrow>
        (\<exists>j<length (AGENTS env). has_credentials (AGENTS env ! j) \<and>
           (\<exists>wb actor.
              worker_flow env lib p (AGENTS env ! j)
                  (world_before env lib p orch (AGENTS env) j w1) = (Inr actor, wb) \<and>
              trace wb = trace w1 @ take i rs \<and>
              trace (world_before env lib p orch (AGENTS env) (Suc j) w1) =
                trace w1 @ take (Suc i) rs \<and>
              rs ! i = exchange_request env lib orch actor (scopes (snd (AGENTS env ! j)))))"
      using worker_loop_exchanges [OF wl] by blast
    have ge: "length (trace w1) \<le> i"
    proof (rule ccontr)
      assume "\<not> length (trace w1) \<le> i"
      then have "i < length (trace w @ rs0)" using rs0(1) by simp
      moreover have "trace w' ! i = (trace w @ rs0) ! i"
        using rs(1) rs0(1) \<open>i < length (trace w @ rs0)\<close> by (simp add: nth_append)
      ultimately show False using in0 [of i] i(1) x by simp
    qed
    let ?k = "i - length (trace w1)"
    have k: "?k < length rs" using i(2) ge rs(1) by simp
    have nth: "trace w' ! i = rs ! ?k" using ge rs(1) by (simp add: nth_append)
    have tk: "take i (trace w') = trace w1 @ take ?k rs" using ge rs(1) by simp
    have tk': "take (Suc i) (trace w') = trace w1 @ take (Suc ?k) rs"
      using ge rs(1) by (simp add: Suc_diff_le)
    obtain j wb actor where "j < length (AGENTS env)" "has_credentials (AGENTS env ! j)"
      "worker_flow env lib p (AGENTS env ! j)
          (world_before env lib p orch (AGENTS env) j w1) = (Inr actor, wb)"
      "trace wb = trace w1 @ take ?k rs"
      "trace (world_before env lib p orch (AGENTS env) (Suc j) w1) =
         trace w1 @ take (Suc ?k) rs"
      "rs ! ?k = exchange_request env lib orch actor (scopes (snd (AGENTS env ! j)))"
      using rs(2) k x nth by auto
    then show ?thesis using f Inr nth tk tk' by auto
  qed
qed

section \<open>Evaluating the concrete runs\<close>

lemma req_url_simps [simp]:
  "req_url (authorize_request env lib cid cs scps ch) = AUTHORIZE_URL env"
  "req_url (authn_request env fid aid asec) = AUTHN_URL env"
  "req_url (token_request env cid cs code v) = TOKEN_URL env"
  "req_url (exchange_request env lib subj act scps) = TOKEN_URL env"
  by (simp_all add: authorize_request_def authn_request_def token_request_def exchange_request_def)

lemma url_distinct [simp]:
  "AUTHORIZE_URL env \<noteq> AUTHN_URL env" "AUTHORIZE_URL env \<noteq> TOKEN_URL env"
  "AUTHN_URL env \<noteq> AUTHORIZE_URL env" "AUTHN_URL env \<noteq> TOKEN_URL env"
  "TOKEN_URL env \<noteq> AUTHORIZE_URL env" "TOKEN_URL env \<noteq> AUTHN_URL env"
  by (simp_all add: AUTHORIZE_URL_def AUTHN_URL_def TOKEN_URL_def)

lemmas result_defs = on_reply_def step1_result_def step2_result_def step3_result_def
  exchange_result_def response_json_def dict_get_def code_of_result_def print_token_def
  print_jwt_claims_def decode_jwt_payload_def decode_jwt_payload_try_def

lemma flow_p0:
  "get_actor_token_3step env0 lib0 p0 aid asec cid cs (Some scps) w =
     (Inr (JStr ''tok''),
      w\<lparr>trace := trace w @
           [authorize_request env0 lib0 cid cs scps (snd (generate_pkce lib0 (draws w))),
            authn_request env0 (JStr ''f1'') aid asec,
            token_request env0 cid cs (JStr ''c1'') (fst (generate_pkce lib0 (draws w)))],
        draws := Suc (draws w)\<rparr>)"
  by (simp add: get_actor_token_3step_unfold flow_unfold p0_def ok_def result_defs lib0_def)

lemma exchange_p0:
  "on_reply (p0 h (exchange_request env0 lib0 subj act scps)) (exchange_result lib0) = Inr (JStr ''delegated'')"
  by (simp add: p0_def ok_def result_defs lib0_def)

lemma agents_env0:
  "AGENTS env0 =
     [(''hr_agent'',
         \<lparr>agent_id = Some ''hr'', agent_secret = Some ''hr-pw'',
          scopes = [''hr:read'', ''hr:write''], audience = ''onboarding-api''\<rparr>),
      (''it_agent'',
         \<lparr>agent_id = Some ''it'', agent_secret = Some ''it-pw'',
          scopes = [''it:read'', ''it:write''], audience = ''onboarding-api''\<rparr>),
      (''approval_agent'',
         \<lparr>agent_id = Some ''approval'', agent_secret = None,
          scopes = [''approval:read'', ''approval:write''], audience = ''onboarding-api''\<rparr>),
      (''booking_agent'',
         \<lparr>agent_id = None, agent_secret = None,
          scopes = [''booking:read'', ''booking:write''], audience = ''onboarding-api''\<rparr>)]"
  by (simp add: AGENTS_def env0_def)

lemma te_env0:
  "TOKEN_EXCHANGER_CLIENT_ID env0 = Some ''te-app''"
  "TOKEN_EXCHANGER_CLIENT_SECRET env0 = Some ''te-secret''"
  "ORCHESTRATOR_CLIENT_ID env0 = Some ''orch-app''"
  "ORCHESTRATOR_CLIENT_SECRET env0 = Some ''orch-secret''"
  "ORCHESTRATOR_AGENT_ID env0 = Some ''orch''"
  "ORCHESTRATOR_AGENT_SECRET env0 = Some ''orch-pw''"
  by (simp_all add: env0_def TOKEN_EXCHANGER_CLIENT_ID_def TOKEN_EXCHANGER_CLIENT_SECRET_def
     ORCHESTRATOR_CLIENT_ID_def ORCHESTRATOR_CLIENT_SECRET_def ORCHESTRATOR_AGENT_ID_def ORCHESTRATOR_AGENT_SECRET_def)

lemma pkce_lib0:
  "generate_pkce lib0 0 = (''v'', ''v'')"
  "generate_pkce lib0 (Suc 0) = (''vv'', ''vv'')"
  "generate_pkce lib0 (Suc (Suc 0)) = (''vvv'', ''vvv'')"
  "generate_pkce lib0 1 = (''vv'', ''vv'')"
  "generate_pkce lib0 2 = (''vvv'', ''vvv'')"
  by (simp_all add: generate_pkce_def lib0_def rstrip_eq_def Let_def numeral_2_eq_2)

lemma main_p0:
  "main env0 lib0 p0 w0 =
     (Completed [(''hr_agent'', Exchanged (JStr ''delegated'')),
                 (''it_agent'', Exchanged (JStr ''delegated'')),
                 (''approval_agent'', Skipped), (''booking_agent'', Skipped)],
      \<lparr>trace = trace0, draws = 3\<rparr>)"
  by (simp add: main_unfold agents_env0 te_env0 flow_p0 exchange_p0 process_worker_unfold
      missing_def w0_def trace0_def pkce_lib0 numeral_3_eq_3)

lemma orchestrator_p0:
  "orchestrator_flow env0 lib0 p0 w0 =
    (Inr (JStr ''tok''), \<lparr>trace = take 3 trace0, draws = 1\<rparr>)"
  by (simp add: flow_p0 te_env0 w0_def pkce_lib0 trace0_def)

lemma orchestrator_p2:
  "orchestrator_flow env0 lib0 p2 w0 =
    (Inl TransportError, \<lparr>trace = take 1 trace1, draws = 1\<rparr>)"
  by (simp add: get_actor_token_3step_unfold flow_unfold te_env0 w0_def pkce_lib0 trace1_def
      p2_def result_defs)


lemma orchestrator_p1:
  "orchestrator_flow env0 lib0 p1 w0 =
    (Inr (JStr ''tok''), \<lparr>trace = take 3 trace1, draws = 1\<rparr>)"
  by (simp add: get_actor_token_3step_unfold flow_unfold te_env0 w0_def pkce_lib0 trace1_def
      p1_def p0_def ok_def result_defs)

lemma rest_p1:
  "worker_loop env0 lib0 p1 (JStr ''tok'') (drop 1 (AGENTS env0))
      \<lparr>trace = take 5 trace1, draws = 2\<rparr> =
    ([(''it_agent'', Exchanged (JStr ''delegated'')),
      (''approval_agent'', Skipped), (''booking_agent'', Skipped)],
     \<lparr>trace = trace1, draws = 3\<rparr>)"
  by (simp add: process_worker_unfold agents_env0 missing_def get_actor_token_3step_unfold
      flow_unfold te_env0 pkce_lib0 trace1_def p1_def p0_def ok_def result_defs numeral_3_eq_3)

lemma hr_flow_p0:
  "worker_flow env0 lib0 p0 (AGENTS env0 ! 0) \<lparr>trace = take 3 trace0, draws = 1\<rparr> =
     (Inr (JStr ''tok''), \<lparr>trace = take 6 trace0, draws = 2\<rparr>)"
  by (simp add: flow_p0 agents_env0 te_env0 pkce_lib0 trace0_def)

lemma hr_iteration_p0:
  "process_worker env0 lib0 p0 (JStr ''tok'') (AGENTS env0 ! 0)
      \<lparr>trace = take 3 trace0, draws = 1\<rparr> =
    (Exchanged (JStr ''delegated''), \<lparr>trace = take 7 trace0, draws = 2\<rparr>)"
  by (simp add: process_worker_unfold agents_env0 missing_def flow_p0 exchange_p0 te_env0
      pkce_lib0 trace0_def)

lemma it_flow_p0:
  "worker_flow env0 lib0 p0 (AGENTS env0 ! 1) \<lparr>trace = take 7 trace0, draws = 2\<rparr> =
     (Inr (JStr ''tok''), \<lparr>trace = take 10 trace0, draws = 3\<rparr>)"
  by (simp add: flow_p0 agents_env0 te_env0 pkce_lib0 trace0_def)

lemma world_before_p0:
  "world_before env0 lib0 p0 (JStr ''tok'') (AGENTS env0) 0 \<lparr>trace = take 3 trace0, draws = 1\<rparr> =
     \<lparr>trace = take 3 trace0, draws = 1\<rparr>"
  "world_before env0 lib0 p0 (JStr ''tok'') (AGENTS env0) 1 \<lparr>trace = take 3 trace0, draws = 1\<rparr> =
     \<lparr>trace = take 7 trace0, draws = 2\<rparr>"
proof -
  show "world_before env0 lib0 p0 (JStr ''tok'') (AGENTS env0) 0
      \<lparr>trace = take 3 trace0, draws = 1\<rparr> = \<lparr>trace = take 3 trace0, draws = 1\<rparr>"
    by simp
  have "take 1 (AGENTS env0) = [AGENTS env0 ! 0]" by (simp add: agents_env0)
  then show "world_before env0 lib0 p0 (JStr ''tok'') (AGENTS env0) 1
      \<lparr>trace = take 3 trace0, draws = 1\<rparr> = \<lparr>trace = take 7 trace0, draws = 2\<rparr>"
    using hr_iteration_p0 by (simp add: world_before_def)
qed

lemma hr_credentials: "has_credentials (AGENTS env0 ! 0)"
  by (simp add: has_credentials_def agents_env0 missing_def)

lemma agents_split: "AGENTS env0 = [] @ (AGENTS env0 ! 0) # drop 1 (AGENTS env0)"
  by (simp add: agents_env0)

lemma hr_flow_p1:
  "worker_flow env0 lib0 p1 (AGENTS env0 ! 0) \<lparr>trace = take 3 trace1, draws = 1\<rparr> =
     (Inl TransportError, \<lparr>trace = take 5 trace1, draws = 2\<rparr>)"
  by (simp add: agents_env0 get_actor_token_3step_unfold flow_unfold te_env0 pkce_lib0
      trace1_def p1_def p0_def ok_def result_defs)

lemma orchestrator_p3:
  "orchestrator_flow env0 lib0 p3 w0 =
    (Inr (JStr ''tok''), \<lparr>trace = take 3 trace0, draws = 1\<rparr>)"
  by (simp add: get_actor_token_3step_unfold flow_unfold te_env0 w0_def pkce_lib0 trace0_def
      p3_def p0_def ok_def result_defs)

lemma hr_flow_p3:
  "worker_flow env0 lib0 p3 (AGENTS env0 ! 0) \<lparr>trace = take 3 trace0, draws = 1\<rparr> =
     (Inr (JStr ''tok''), \<lparr>trace = take 6 trace0, draws = 2\<rparr>)"
  by (simp add: agents_env0 get_actor_token_3step_unfold flow_unfold te_env0 pkce_lib0
      trace0_def p3_def p0_def ok_def result_defs)

lemma hr_exchange_p3:
  "token_exchange_downscope env0 lib0 p3 (JStr ''tok'') (JStr ''tok'')
      (scopes (snd (AGENTS env0 ! 0))) \<lparr>trace = take 6 trace0, draws = 2\<rparr> =
     (Inl ValueError, \<lparr>trace = take 7 trace0, draws = 2\<rparr>)"
  by (simp add: agents_env0 exchange_unfold trace0_def p3_def result_defs)

lemma rest_p3:
  "worker_loop env0 lib0 p3 (JStr ''tok'') (drop 1 (AGENTS env0))
      \<lparr>trace = take 7 trace0, draws = 2\<rparr> =
    ([(''it_agent'', Exchanged (JStr ''delegated'')),
      (''approval_agent'', Skipped), (''booking_agent'', Skipped)],
     \<lparr>trace = trace0, draws = 3\<rparr>)"
  by (simp add: process_worker_unfold agents_env0 missing_def get_actor_token_3step_unfold
      flow_unfold te_env0 pkce_lib0 trace0_def p3_def p0_def ok_def result_defs
      numeral_3_eq_3)

section \<open>Token exchange requests of a run\<close>

lemma agents_scopes:
  assumes "item \<in> set (AGENTS env)"
  shows "sort (scopes (snd item)) = scopes (snd item)"
    and "set (split_on CHR '' '' (join_sp (scopes (snd item)))) \<subseteq> set (scopes (snd item))"
  using assms unfolding AGENTS_def by auto

lemma form_field_exchange:
  "form_field (exchange_request env lib subj act scps) ''subject_token'' = Some subj"
  "form_field (exchange_request env lib subj act scps) ''actor_token'' = Some act"
  "form_field (exchange_request env lib subj act scps) ''scope'' = Some (JStr (join_sp scps))"
  by (simp_all add: form_field_def exchange_request_def)

text \<open>
  Claim C1. Every token exchange request that a run of the driver sends is the last
  request of the iteration of one worker of \<^verbatim>\<open>AGENTS\<close>, sent right after that worker's
  flow returned, and carries as its \<^verbatim>\<open>scope\<close> field that worker's configured scopes,
  sorted and joined by single spaces; the words of that string are among that worker's
  configured scopes. The source joins the list as configured: the lists of \<^verbatim>\<open>AGENTS\<close>
  are in ascending order.
\<close>

theorem exchange_scope_is_sorted_join:
  assumes "main env lib p w = (res, w')"
    and "length (trace w) \<le> i" and "i < length (trace w')"
    and "is_exchange_request (trace w' ! i)"
  shows "\<exists>orch w1. orchestrator_flow env lib p w = (Inr orch, w1) \<and>
     (\<exists>j<length (AGENTS env). has_credentials (AGENTS env ! j) \<and>
        (\<exists>wb actor.
           worker_flow env lib p (AGENTS env ! j)
               (world_before env lib p orch (AGENTS env) j w1) = (Inr actor, wb) \<and>
           trace wb = take i (trace w')) \<and>
        trace (world_before env lib p orch (AGENTS env) (Suc j) w1) = take (Suc i) (trace w') \<and>
        form_field (trace w' ! i) ''scope'' =
          Some (JStr (join_sp (sort (scopes (snd (AGENTS env ! j)))))) \<and>
        set (split_on CHR '' '' (join_sp (sort (scopes (snd (AGENTS env ! j))))))
          \<subseteq> set (scopes (snd (AGENTS env ! j))))"
proof -
  obtain orch w1 j wb actor where o: "orchestrator_flow env lib p w = (Inr orch, w1)"
    and j: "j < length (AGENTS env)" "has_credentials (AGENTS env ! j)"
    and f: "worker_flow env lib p (AGENTS env ! j)
               (world_before env lib p orch (AGENTS env) j w1) = (Inr actor, wb)"
      "trace wb = take i (trace w')"
      "trace (world_before env lib p orch (AGENTS env) (Suc j) w1) = take (Suc i) (trace w')"
    and r: "trace w' ! i = exchange_request env lib orch actor (scopes (snd (AGENTS env ! j)))"
    using main_exchanges [OF assms] by blast
  have m: "AGENTS env ! j \<in> set (AGENTS env)" using j(1) by simp
  show ?thesis
    using o j f r agents_scopes [OF m]
    by (intro exI [of _ orch] exI [of _ w1] conjI exI [of _ j] exI [of _ wb]
        exI [of _ actor]) (simp_all add: form_field_exchange)
qed

lemma trace0_nth6:
  "trace0 ! 6 = exchange_request env0 lib0 (JStr ''tok'') (JStr ''tok'') [''hr:read'', ''hr:write'']"
  by (simp add: trace0_def)

theorem exchange_scope_is_sorted_join_witness:
  "main env0 lib0 p0 w0 =
     (Completed [(''hr_agent'', Exchanged (JStr ''delegated'')),
                 (''it_agent'', Exchanged (JStr ''delegated'')),
                 (''approval_agent'', Skipped), (''booking_agent'', Skipped)],
      \<lparr>trace = trace0, draws = 3\<rparr>) \<and>
   length (trace w0) \<le> 6 \<and> 6 < length trace0 \<and> is_exchange_request (trace0 ! 6) \<and>
   (\<exists>orch w1. orchestrator_flow env0 lib0 p0 w0 = (Inr orch, w1) \<and>
     (\<exists>j<length (AGENTS env0). has_credentials (AGENTS env0 ! j) \<and>
        (\<exists>wb actor.
           worker_flow env0 lib0 p0 (AGENTS env0 ! j)
               (world_before env0 lib0 p0 orch (AGENTS env0) j w1) = (Inr actor, wb) \<and>
           trace wb = take 6 trace0) \<and>
        trace (world_before env0 lib0 p0 orch (AGENTS env0) (Suc j) w1) = take (Suc 6) trace0 \<and>
        form_field (trace0 ! 6) ''scope'' =
          Some (JStr (join_sp (sort (scopes (snd (AGENTS env0 ! j)))))) \<and>
        set (split_on CHR '' '' (join_sp (sort (scopes (snd (AGENTS env0 ! j))))))
          \<subseteq> set (scopes (snd (AGENTS env0 ! j))))) \<and>
   worker_flow env0 lib0 p0 (AGENTS env0 ! 0)
      (world_before env0 lib0 p0 (JStr ''tok'') (AGENTS env0) 0
         \<lparr>trace = take 3 trace0, draws = 1\<rparr>) =
     (Inr (JStr ''tok''), \<lparr>trace = take 6 trace0, draws = 2\<rparr>) \<and>
   scopes (snd (AGENTS env0 ! 0)) = [''hr:read'', ''hr:write''] \<and>
   form_field (trace0 ! 6) ''scope'' = Some (JStr ''hr:read hr:write'')"
proof -
  have a: "length (trace w0) \<le> 6" by (simp add: w0_def)
  have b: "6 < length (trace \<lparr>trace = trace0, draws = 3\<rparr>)" by (simp add: trace0_def)
  have c: "is_exchange_request (trace \<lparr>trace = trace0, draws = 3\<rparr> ! 6)"
    by (simp add: trace0_nth6)
  have d: "scopes (snd (AGENTS env0 ! 0)) = [''hr:read'', ''hr:write'']"
    by (simp add: agents_env0)
  show ?thesis
    using exchange_scope_is_sorted_join [OF main_p0 a b c] main_p0 a b c d hr_flow_p0
    by (simp add: trace0_nth6 form_field_exchange)
qed

lemma trace0_nth10:
  "trace0 ! 10 =
     exchange_request env0 lib0 (JStr ''tok'') (JStr ''tok'') [''it:read'', ''it:write'']"
  by (simp add: trace0_def)

text \<open>
  Claim C2. Every token exchange request of a run is the last request of the iteration of
  one worker of \<^verbatim>\<open>AGENTS\<close>. It carries the token that the orchestrator's flow returned
  at the start of the run as \<^verbatim>\<open>subject_token\<close>, the token that this worker's flow,
  started in the world in which the loop reached the worker, returned just before the
  request as \<^verbatim>\<open>actor_token\<close>, and this worker's configured scopes.
\<close>

theorem exchange_subject_and_actor:
  assumes "main env lib p w = (res, w')"
    and "length (trace w) \<le> i" and "i < length (trace w')"
    and "is_exchange_request (trace w' ! i)"
  shows "\<exists>orch w1. orchestrator_flow env lib p w = (Inr orch, w1) \<and>
     (\<exists>j<length (AGENTS env). has_credentials (AGENTS env ! j) \<and>
        (\<exists>wb actor.
           worker_flow env lib p (AGENTS env ! j)
               (world_before env lib p orch (AGENTS env) j w1) = (Inr actor, wb) \<and>
           trace wb = take i (trace w') \<and>
           form_field (trace w' ! i) ''actor_token'' = Some actor) \<and>
        trace (world_before env lib p orch (AGENTS env) (Suc j) w1) = take (Suc i) (trace w') \<and>
        form_field (trace w' ! i) ''subject_token'' = Some orch \<and>
        form_field (trace w' ! i) ''scope'' =
          Some (JStr (join_sp (scopes (snd (AGENTS env ! j))))))"
proof -
  obtain orch w1 j wb actor where o: "orchestrator_flow env lib p w = (Inr orch, w1)"
    and j: "j < length (AGENTS env)" "has_credentials (AGENTS env ! j)"
    and f: "worker_flow env lib p (AGENTS env ! j)
               (world_before env lib p orch (AGENTS env) j w1) = (Inr actor, wb)"
      "trace wb = take i (trace w')"
      "trace (world_before env lib p orch (AGENTS env) (Suc j) w1) = take (Suc i) (trace w')"
    and r: "trace w' ! i = exchange_request env lib orch actor (scopes (snd (AGENTS env ! j)))"
    using main_exchanges [OF assms] by blast
  show ?thesis
    using o j f r
    by (intro exI [of _ orch] exI [of _ w1] conjI exI [of _ j] exI [of _ wb]
        exI [of _ actor]) (simp_all add: form_field_exchange)
qed

theorem exchange_subject_and_actor_witness:
  "main env0 lib0 p0 w0 =
     (Completed [(''hr_agent'', Exchanged (JStr ''delegated'')),
                 (''it_agent'', Exchanged (JStr ''delegated'')),
                 (''approval_agent'', Skipped), (''booking_agent'', Skipped)],
      \<lparr>trace = trace0, draws = 3\<rparr>) \<and>
   length (trace w0) \<le> 10 \<and> 10 < length trace0 \<and> is_exchange_request (trace0 ! 10) \<and>
   (\<exists>orch w1. orchestrator_flow env0 lib0 p0 w0 = (Inr orch, w1) \<and>
     (\<exists>j<length (AGENTS env0). has_credentials (AGENTS env0 ! j) \<and>
        (\<exists>wb actor.
           worker_flow env0 lib0 p0 (AGENTS env0 ! j)
               (world_before env0 lib0 p0 orch (AGENTS env0) j w1) = (Inr actor, wb) \<and>
           trace wb = take 10 trace0 \<and>
           form_field (trace0 ! 10) ''actor_token'' = Some actor) \<and>
        trace (world_before env0 lib0 p0 orch (AGENTS env0) (Suc j) w1) = take (Suc 10) trace0 \<and>
        form_field (trace0 ! 10) ''subject_token'' = Some orch \<and>
        form_field (trace0 ! 10) ''scope'' =
          Some (JStr (join_sp (scopes (snd (AGENTS env0 ! j))))))) \<and>
   orchestrator_flow env0 lib0 p0 w0 =
     (Inr (JStr ''tok''), \<lparr>trace = take 3 trace0, draws = 1\<rparr>) \<and>
   worker_flow env0 lib0 p0 (AGENTS env0 ! 1)
      (world_before env0 lib0 p0 (JStr ''tok'') (AGENTS env0) 1
         \<lparr>trace = take 3 trace0, draws = 1\<rparr>) =
     (Inr (JStr ''tok''), \<lparr>trace = take 10 trace0, draws = 3\<rparr>) \<and>
   form_field (trace0 ! 10) ''subject_token'' = Some (JStr ''tok'') \<and>
   form_field (trace0 ! 10) ''actor_token'' = Some (JStr ''tok'') \<and>
   form_field (trace0 ! 10) ''scope'' = Some (JStr ''it:read it:write'')"
proof -
  have a: "length (trace w0) \<le> 10" by (simp add: w0_def)
  have b: "10 < length (trace \<lparr>trace = trace0, draws = 3\<rparr>)" by (simp add: trace0_def)
  have c: "is_exchange_request (trace \<lparr>trace = trace0, draws = 3\<rparr> ! 10)"
    by (simp add: trace0_nth10)
  show ?thesis
    using exchange_subject_and_actor [OF main_p0 a b c] main_p0 a b c orchestrator_p0
      it_flow_p0 world_before_p0(2)
    by (simp add: trace0_nth10 form_field_exchange)
qed

section \<open>Skipped and failed workers\<close>

lemma worker_loop_append:
  "worker_loop env lib p orch (xs @ ys) w =
     (fst (worker_loop env lib p orch xs w) @
        fst (worker_loop env lib p orch ys (snd (worker_loop env lib p orch xs w))),
      snd (worker_loop env lib p orch ys (snd (worker_loop env lib p orch xs w))))"
  by (induction xs arbitrary: w) (simp_all split: prod.splits)

text \<open>
  Claim C10. A worker whose \<^verbatim>\<open>agent_id\<close> or \<^verbatim>\<open>agent_secret\<close> is missing is skipped: the
  world is left as it was (no request, no draw), the outcome is \<open>Skipped\<close> and not a
  failure, and the loop goes on with the workers that follow.
\<close>

theorem missing_credentials_skip:
  assumes "missing (agent_id (snd item)) \<or> missing (agent_secret (snd item))"
  shows "process_worker env lib p orch item w = (Skipped, w) \<and>
         worker_loop env lib p orch (item # items) w =
           ((fst item, Skipped) # fst (worker_loop env lib p orch items w),
            snd (worker_loop env lib p orch items w))"
  using assms by (simp add: process_worker_unfold split: prod.splits)

theorem missing_credentials_skip_witness:
  "missing (agent_secret (snd (AGENTS env0 ! 2))) \<and>
   process_worker env0 lib0 p0 (JStr ''tok'') (AGENTS env0 ! 2) w0 = (Skipped, w0) \<and>
   worker_loop env0 lib0 p0 (JStr ''tok'') [AGENTS env0 ! 2, AGENTS env0 ! 3] w0 =
     ([(''approval_agent'', Skipped), (''booking_agent'', Skipped)], w0)"
proof -
  have m: "missing (agent_secret (snd (AGENTS env0 ! 2)))"
    by (simp add: agents_env0 missing_def)
  have m': "missing (agent_id (snd (AGENTS env0 ! 3)))"
    by (simp add: agents_env0 missing_def)
  show ?thesis
    using m missing_credentials_skip [of "AGENTS env0 ! 2" env0 lib0 p0 "JStr ''tok''" w0
        "[AGENTS env0 ! 3]"]
      missing_credentials_skip [of "AGENTS env0 ! 3" env0 lib0 p0 "JStr ''tok''" w0 "[]"] m'
    by (simp add: agents_env0)
qed

lemma worker_loop_map_fst:
  "map fst (fst (worker_loop env lib p orch items w)) = map fst items"
proof (induction items arbitrary: w)
  case Nil
  then show ?case by simp
next
  case (Cons item items)
  obtain out w1 where pw: "process_worker env lib p orch item w = (out, w1)"
    by (cases "process_worker env lib p orch item w")
  obtain outs w2 where wl: "worker_loop env lib p orch items w1 = (outs, w2)"
    by (cases "worker_loop env lib p orch items w1")
  show ?case using Cons.IH [of w1] pw wl by simp
qed

lemma worker_loop_nth:
  "k < length items \<Longrightarrow>
   snd (fst (worker_loop env lib p orch items w) ! k) =
     fst (process_worker env lib p orch (items ! k) (world_before env lib p orch items k w))"
proof (induction items arbitrary: w k)
  case Nil
  then show ?case by simp
next
  case (Cons item items)
  obtain out w1 where pw: "process_worker env lib p orch item w = (out, w1)"
    by (cases "process_worker env lib p orch item w")
  obtain outs w2 where wl: "worker_loop env lib p orch items w1 = (outs, w2)"
    by (cases "worker_loop env lib p orch items w1")
  show ?case
  proof (cases k)
    case 0
    then show ?thesis using pw wl by simp
  next
    case (Suc k')
    then have "k' < length items" using Cons.prems by simp
    from Cons.IH [OF this, of w1] show ?thesis
      using Suc pw wl world_before_Suc [OF pw, of items k'] by simp
  qed
qed

lemma process_worker_failed:
  assumes "has_credentials item"
    and "worker_flow env lib p item w = (Inl e, w') \<or>
         (\<exists>actor wf. worker_flow env lib p item w = (Inr actor, wf) \<and>
            token_exchange_downscope env lib p orch actor (scopes (snd item)) wf = (Inl e, w'))"
  shows "process_worker env lib p orch item w = (Failed e, w')"
  using assms
  by (auto simp add: process_worker_def has_credentials_def missing_def of_env_def Let_def
      split: option.splits)

text \<open>
  Claim C8. A run whose orchestrator flow fails is \<open>Fatal\<close> in the world that flow
  left: no worker is processed. In a run whose orchestrator flow succeeds, a worker with
  credentials whose flow fails, or whose token exchange fails after its flow succeeded, is
  reported \<open>Failed\<close> with the exception at its place, after the outcomes of the workers
  before it; every worker after it has an outcome, which is what \<open>process_worker\<close>
  gives for it in the world the loop reaches it in.
\<close>

theorem worker_failures_are_isolated:
  assumes "AGENTS env = earlier @ item # later"
  shows "(\<forall>e w1. orchestrator_flow env lib p w = (Inl e, w1) \<longrightarrow>
            main env lib p w = (Fatal e, w1)) \<and>
         (\<forall>orch w1 outs1 w2 e w3.
            orchestrator_flow env lib p w = (Inr orch, w1) \<and>
            worker_loop env lib p orch earlier w1 = (outs1, w2) \<and>
            has_credentials item \<and>
            (worker_flow env lib p item w2 = (Inl e, w3) \<or>
             (\<exists>actor wf. worker_flow env lib p item w2 = (Inr actor, wf) \<and>
                token_exchange_downscope env lib p orch actor (scopes (snd item)) wf =
                  (Inl e, w3))) \<longrightarrow>
            (\<exists>outs2 w4.
               worker_loop env lib p orch later w3 = (outs2, w4) \<and>
               main env lib p w = (Completed (outs1 @ (fst item, Failed e) # outs2), w4) \<and>
               map fst outs2 = map fst later \<and>
               (\<forall>k<length later.
                  snd (outs2 ! k) =
                    fst (process_worker env lib p orch (later ! k)
                           (world_before env lib p orch later k w3)))))"
proof -
  have fatal: "main env lib p w = (Fatal e, w1)"
    if "orchestrator_flow env lib p w = (Inl e, w1)" for e w1
    using that by (simp add: main_unfold)
  have isolated: "\<exists>outs2 w4.
               worker_loop env lib p orch later w3 = (outs2, w4) \<and>
               main env lib p w = (Completed (outs1 @ (fst item, Failed e) # outs2), w4) \<and>
               map fst outs2 = map fst later \<and>
               (\<forall>k<length later.
                  snd (outs2 ! k) =
                    fst (process_worker env lib p orch (later ! k)
                           (world_before env lib p orch later k w3)))"
    if o: "orchestrator_flow env lib p w = (Inr orch, w1)"
      and l: "worker_loop env lib p orch earlier w1 = (outs1, w2)"
      and h: "has_credentials item"
      and f: "worker_flow env lib p item w2 = (Inl e, w3) \<or>
             (\<exists>actor wf. worker_flow env lib p item w2 = (Inr actor, wf) \<and>
                token_exchange_downscope env lib p orch actor (scopes (snd item)) wf =
                  (Inl e, w3))"
    for orch w1 outs1 w2 e w3
  proof -
    have pw: "process_worker env lib p orch item w2 = (Failed e, w3)"
      using process_worker_failed [OF h f] .
    obtain outs2 w4 where wl: "worker_loop env lib p orch later w3 = (outs2, w4)"
      by (cases "worker_loop env lib p orch later w3")
    have m: "main env lib p w = (Completed (outs1 @ (fst item, Failed e) # outs2), w4)"
      using o l pw wl assms by (simp add: main_unfold worker_loop_append)
    have a: "map fst outs2 = map fst later"
      using worker_loop_map_fst [of env lib p orch later w3] wl by simp
    have b: "\<forall>k<length later.
                  snd (outs2 ! k) =
                    fst (process_worker env lib p orch (later ! k)
                           (world_before env lib p orch later k w3))"
      using worker_loop_nth [of _ later env lib p orch w3] wl by simp
    show ?thesis using wl m a b by blast
  qed
  show ?thesis using fatal isolated by blast
qed

theorem worker_failures_are_isolated_witness:
  "AGENTS env0 = [] @ (AGENTS env0 ! 0) # drop 1 (AGENTS env0) \<and>
   has_credentials (AGENTS env0 ! 0) \<and>
   orchestrator_flow env0 lib0 p2 w0 =
     (Inl TransportError, \<lparr>trace = take 1 trace1, draws = 1\<rparr>) \<and>
   main env0 lib0 p2 w0 = (Fatal TransportError, \<lparr>trace = take 1 trace1, draws = 1\<rparr>) \<and>
   orchestrator_flow env0 lib0 p1 w0 =
     (Inr (JStr ''tok''), \<lparr>trace = take 3 trace1, draws = 1\<rparr>) \<and>
   worker_flow env0 lib0 p1 (AGENTS env0 ! 0) \<lparr>trace = take 3 trace1, draws = 1\<rparr> =
     (Inl TransportError, \<lparr>trace = take 5 trace1, draws = 2\<rparr>) \<and>
   main env0 lib0 p1 w0 =
     (Completed [(''hr_agent'', Failed TransportError),
                 (''it_agent'', Exchanged (JStr ''delegated'')),
                 (''approval_agent'', Skipped), (''booking_agent'', Skipped)],
      \<lparr>trace = trace1, draws = 3\<rparr>) \<and>
   orchestrator_flow env0 lib0 p3 w0 =
     (Inr (JStr ''tok''), \<lparr>trace = take 3 trace0, draws = 1\<rparr>) \<and>
   worker_flow env0 lib0 p3 (AGENTS env0 ! 0) \<lparr>trace = take 3 trace0, draws = 1\<rparr> =
     (Inr (JStr ''tok''), \<lparr>trace = take 6 trace0, draws = 2\<rparr>) \<and>
   token_exchange_downscope env0 lib0 p3 (JStr ''tok'') (JStr ''tok'')
      (scopes (snd (AGENTS env0 ! 0))) \<lparr>trace = take 6 trace0, draws = 2\<rparr> =
     (Inl ValueError, \<lparr>trace = take 7 trace0, draws = 2\<rparr>) \<and>
   main env0 lib0 p3 w0 =
     (Completed [(''hr_agent'', Failed ValueError),
                 (''it_agent'', Exchanged (JStr ''delegated'')),
                 (''approval_agent'', Skipped), (''booking_agent'', Skipped)],
      \<lparr>trace = trace0, draws = 3\<rparr>)"
proof -
  have k: "fst (AGENTS env0 ! 0) = ''hr_agent''" by (simp add: agents_env0)
  have fatal: "main env0 lib0 p2 w0 =
      (Fatal TransportError, \<lparr>trace = take 1 trace1, draws = 1\<rparr>)"
    using worker_failures_are_isolated [OF agents_split, of lib0 p2 w0] orchestrator_p2
    by blast
  have flow: "main env0 lib0 p1 w0 =
     (Completed [(''hr_agent'', Failed TransportError),
                 (''it_agent'', Exchanged (JStr ''delegated'')),
                 (''approval_agent'', Skipped), (''booking_agent'', Skipped)],
      \<lparr>trace = trace1, draws = 3\<rparr>)"
  proof -
    have "\<exists>outs2 w4.
        worker_loop env0 lib0 p1 (JStr ''tok'') (drop 1 (AGENTS env0))
          \<lparr>trace = take 5 trace1, draws = 2\<rparr> = (outs2, w4) \<and>
        main env0 lib0 p1 w0 =
          (Completed ([] @ (fst (AGENTS env0 ! 0), Failed TransportError) # outs2), w4)"
      using worker_failures_are_isolated [OF agents_split, of lib0 p1 w0,
          THEN conjunct2, rule_format,
          of "JStr ''tok''" "\<lparr>trace = take 3 trace1, draws = 1\<rparr>" "[]"
            "\<lparr>trace = take 3 trace1, draws = 1\<rparr>" TransportError
            "\<lparr>trace = take 5 trace1, draws = 2\<rparr>"]
        orchestrator_p1 hr_credentials hr_flow_p1
      by auto
    then show ?thesis using rest_p1 k by auto
  qed
  have exchange: "main env0 lib0 p3 w0 =
     (Completed [(''hr_agent'', Failed ValueError),
                 (''it_agent'', Exchanged (JStr ''delegated'')),
                 (''approval_agent'', Skipped), (''booking_agent'', Skipped)],
      \<lparr>trace = trace0, draws = 3\<rparr>)"
  proof -
    have "\<exists>outs2 w4.
        worker_loop env0 lib0 p3 (JStr ''tok'') (drop 1 (AGENTS env0))
          \<lparr>trace = take 7 trace0, draws = 2\<rparr> = (outs2, w4) \<and>
        main env0 lib0 p3 w0 =
          (Completed ([] @ (fst (AGENTS env0 ! 0), Failed ValueError) # outs2), w4)"
      using worker_failures_are_isolated [OF agents_split, of lib0 p3 w0,
          THEN conjunct2, rule_format,
          of "JStr ''tok''" "\<lparr>trace = take 3 trace0, draws = 1\<rparr>" "[]"
            "\<lparr>trace = take 3 trace0, draws = 1\<rparr>" ValueError
            "\<lparr>trace = take 7 trace0, draws = 2\<rparr>"]
        orchestrator_p3 hr_credentials hr_flow_p3 hr_exchange_p3
      by auto
    then show ?thesis using rest_p3 k by auto
  qed
  show ?thesis
    using agents_split hr_credentials orchestrator_p2 fatal orchestrator_p1 hr_flow_p1 flow
      orchestrator_p3 hr_flow_p3 hr_exchange_p3 exchange
    by (intro conjI)
qed

section \<open>The PKCE pair\<close>

lemma rstrip_eq_strip_padding: "rstrip_eq b = strip_padding b"
  by (simp add: rstrip_eq_def strip_padding_def dropWhile_eq_drop rev_drop)

lemma rstrip_eq_padding: "\<exists>n. b = rstrip_eq b @ replicate n CHR ''=''"
proof -
  let ?P = "\<lambda>c. c = CHR ''=''"
  have "rev b = takeWhile ?P (rev b) @ dropWhile ?P (rev b)" by simp
  then have "b = rev (dropWhile ?P (rev b)) @ rev (takeWhile ?P (rev b))"
    by (metis rev_append rev_rev_ident)
  moreover have "rev (takeWhile ?P (rev b)) = replicate (length (takeWhile ?P (rev b))) CHR ''=''"
    by (rule replicate_eqI) (auto dest: set_takeWhileD)
  ultimately have "b = rstrip_eq b @ replicate (length (takeWhile ?P (rev b))) CHR ''=''"
    unfolding rstrip_eq_def by simp
  then show ?thesis by (rule exI)
qed

lemma rstrip_eq_no_trailing: "rstrip_eq b \<noteq> d @ ''=''"
proof
  assume "rstrip_eq b = d @ ''=''"
  then have "rev (rev (dropWhile (\<lambda>c. c = CHR ''='') (rev b))) = rev (d @ ''='')"
    unfolding rstrip_eq_def by (rule arg_cong)
  then have e: "dropWhile (\<lambda>c. c = CHR ''='') (rev b) = CHR ''='' # rev d"
    by simp
  then have "dropWhile (\<lambda>c. c = CHR ''='') (rev b) \<noteq> []" by simp
  from hd_dropWhile [OF this] e show False by simp
qed

text \<open>
  Claim C3. The verifier returned is the one drawn, and the challenge returned is the
  base64url text of the SHA-256 digest of the verifier with its trailing \<open>=\<close> removed:
  it is what the specification's derivation gives for the returned verifier, the encoding
  is the challenge followed by \<open>=\<close> characters only, and the challenge does not end
  with \<open>=\<close>.
\<close>

theorem pkce_challenge_derivation:
  "fst (generate_pkce lib k) = token_urlsafe lib k \<and>
   snd (generate_pkce lib k) = spec_challenge lib (fst (generate_pkce lib k)) \<and>
   (\<exists>n. urlsafe_b64encode lib (sha256 lib (fst (generate_pkce lib k))) =
          snd (generate_pkce lib k) @ replicate n CHR ''='') \<and>
   \<not> (\<exists>d. snd (generate_pkce lib k) = d @ ''='')"
  using rstrip_eq_padding [of "urlsafe_b64encode lib (sha256 lib (token_urlsafe lib k))"]
    rstrip_eq_no_trailing [of "urlsafe_b64encode lib (sha256 lib (token_urlsafe lib k))"]
  by (simp add: generate_pkce_def spec_challenge_def rstrip_eq_strip_padding Let_def)

section \<open>The short-circuit of step 1\<close>

lemma embedded_code_of_result:
  "embedded_code kvs = Some code \<Longrightarrow> code_of_result (JObj kvs) = Inr code \<and> truthy code"
  by (auto simp add: embedded_code_def nested_code_def code_of_result_def dict_get_def
      split: option.splits if_splits json.splits)

lemma token_fields:
  "form_field (token_request env cid cs code v) ''grant_type'' = Some (JStr ''authorization_code'')"
  "form_field (token_request env cid cs code v) ''code'' = Some code"
  "form_field (token_request env cid cs code v) ''code_verifier'' = Some (JStr v)"
  "form_field (token_request env cid cs code v) ''client_id'' = Some (of_env cid)"
  "form_field (token_request env cid cs code v) ''client_secret'' = Some (of_env cs)"
  "form_field (token_request env cid cs code v) ''redirect_uri'' = Some (JStr (CALLBACK_URL env))"
  by (simp_all add: form_field_def token_request_def)

text \<open>
  Claim C4. When the response to the authorization request has the status
  \<^verbatim>\<open>SUCCESS_COMPLETED\<close> and an embedded code, the flow sends exactly two requests: the
  authorization request, and a request to the token endpoint whose form is the
  authorization-code grant with that code in its \<^verbatim>\<open>code\<close> field and the verifier of the
  flow. No request goes to the authentication endpoint.
\<close>

theorem direct_code_skips_authentication:
  assumes "p (trace w) (authorize_request env lib cid cs scps (snd (generate_pkce lib (draws w))))
             = Reply resp"
    and "json_body resp = Some (JObj kvs)"
    and "map_of kvs ''flowStatus'' = Some (JStr ''SUCCESS_COMPLETED'')"
    and "embedded_code kvs = Some code"
  shows "\<exists>step1 step3.
     sent w (snd (get_actor_token_3step env lib p aid asec cid cs (Some scps) w)) =
       [step1, step3] \<and>
     step1 = authorize_request env lib cid cs scps (snd (generate_pkce lib (draws w))) \<and>
     req_url step1 = AUTHORIZE_URL env \<and>
     req_url step3 = TOKEN_URL env \<and>
     req_url step1 \<noteq> AUTHN_URL env \<and> req_url step3 \<noteq> AUTHN_URL env \<and>
     req_payload step3 = Form
       [(''grant_type'', JStr ''authorization_code''),
        (''client_id'', of_env cid),
        (''client_secret'', of_env cs),
        (''code'', code),
        (''code_verifier'', JStr (fst (generate_pkce lib (draws w)))),
        (''redirect_uri'', JStr (CALLBACK_URL env))] \<and>
     form_field step3 ''code'' = Some code"
proof -
  have t: "truthy code" and c: "code_of_result (JObj kvs) = Inr code"
    using embedded_code_of_result [OF assms(4)] by simp_all
  have s1: "step1_result resp = Inr (JNull, code)"
    using assms(2,3) t c
    by (simp add: step1_result_def response_json_def dict_get_def Let_def split: option.splits)
  have "trace (snd (get_actor_token_3step env lib p aid asec cid cs (Some scps) w)) =
           trace w @
           [authorize_request env lib cid cs scps (snd (generate_pkce lib (draws w))),
            token_request env cid cs code (fst (generate_pkce lib (draws w)))]"
    using assms(1) s1 t
    by (simp add: get_actor_token_3step_unfold flow_unfold on_reply_def
        split: sum.splits prod.splits)
  then have "sent w (snd (get_actor_token_3step env lib p aid asec cid cs (Some scps) w)) =
           [authorize_request env lib cid cs scps (snd (generate_pkce lib (draws w))),
            token_request env cid cs code (fst (generate_pkce lib (draws w)))]"
    by (simp add: sent_def)
  then show ?thesis
    by (intro exI [of _ "authorize_request env lib cid cs scps (snd (generate_pkce lib (draws w)))"]
        exI [of _ "token_request env cid cs code (fst (generate_pkce lib (draws w)))"])
      (simp add: token_fields, simp add: token_request_def)
qed

theorem direct_code_skips_authentication_witness:
  "p_direct (trace w0)
      (authorize_request env0 lib0 (Some ''te-app'') (Some ''te-secret'') [''openid'']
         (snd (generate_pkce lib0 (draws w0)))) =
     Reply \<lparr>status_code = 200, json_body = Some (JObj [(''flowStatus'', JStr ''SUCCESS_COMPLETED''),
                  (''authData'', JObj [(''code'', JStr ''c9'')])])\<rparr> \<and>
   map_of [(''flowStatus'', JStr ''SUCCESS_COMPLETED''),
           (''authData'', JObj [(''code'', JStr ''c9'')])] ''flowStatus'' =
     Some (JStr ''SUCCESS_COMPLETED'') \<and>
   embedded_code [(''flowStatus'', JStr ''SUCCESS_COMPLETED''),
                  (''authData'', JObj [(''code'', JStr ''c9'')])] = Some (JStr ''c9'') \<and>
   (\<exists>step1 step3.
      sent w0 (snd (get_actor_token_3step env0 lib0 p_direct (Some ''hr'') (Some ''hr-pw'')
            (Some ''te-app'') (Some ''te-secret'') (Some [''openid'']) w0)) = [step1, step3] \<and>
      req_url step1 = AUTHORIZE_URL env0 \<and> req_url step3 = TOKEN_URL env0 \<and>
      form_field step3 ''code'' = Some (JStr ''c9'') \<and>
      form_field step3 ''code_verifier'' = Some (JStr ''v''))"
proof -
  let ?kvs = "[(''flowStatus'', JStr ''SUCCESS_COMPLETED''),
                  (''authData'', JObj [(''code'', JStr ''c9'')])]"
  let ?resp = "\<lparr>status_code = 200, json_body = Some (JObj ?kvs)\<rparr>"
  have a: "p_direct (trace w0)
      (authorize_request env0 lib0 (Some ''te-app'') (Some ''te-secret'') [''openid'']
         (snd (generate_pkce lib0 (draws w0)))) = Reply ?resp"
    by (simp add: p_direct_def ok_def)
  have b: "json_body ?resp = Some (JObj ?kvs)" by simp
  have c: "map_of ?kvs ''flowStatus'' = Some (JStr ''SUCCESS_COMPLETED'')" by simp
  have d: "embedded_code ?kvs = Some (JStr ''c9'')"
    by (simp add: embedded_code_def nested_code_def)
  obtain step1 step3 where
    s: "sent w0 (snd (get_actor_token_3step env0 lib0 p_direct (Some ''hr'') (Some ''hr-pw'')
            (Some ''te-app'') (Some ''te-secret'') (Some [''openid'']) w0)) = [step1, step3]"
      "req_url step1 = AUTHORIZE_URL env0" "req_url step3 = TOKEN_URL env0"
      "req_payload step3 = Form
       [(''grant_type'', JStr ''authorization_code''),
        (''client_id'', of_env (Some ''te-app'')),
        (''client_secret'', of_env (Some ''te-secret'')),
        (''code'', JStr ''c9''),
        (''code_verifier'', JStr (fst (generate_pkce lib0 (draws w0)))),
        (''redirect_uri'', JStr (CALLBACK_URL env0))]"
    using direct_code_skips_authentication [where p = p_direct and w = w0 and env = env0
        and lib = lib0 and cid = "Some ''te-app''" and cs = "Some ''te-secret''"
        and scps = "[''openid'']" and aid = "Some ''hr''" and asec = "Some ''hr-pw''", OF a b c d]
    by blast
  have "form_field step3 ''code'' = Some (JStr ''c9'')"
    "form_field step3 ''code_verifier'' = Some (JStr ''v'')"
    using s(4) by (simp_all add: form_field_def w0_def pkce_lib0)
  then show ?thesis using a c d s(1-3) by blast
qed

section \<open>Where the verifier and the challenge go\<close>

lemma sent_append [simp]: "trace w' = trace w @ rs \<Longrightarrow> sent w w' = rs"
  by (simp add: sent_def)

lemma pkce_fields:
  "form_field (authorize_request env lib cid cs scps ch) ''code_challenge'' = Some (JStr ch)"
  "form_field (authorize_request env lib cid cs scps ch) ''code_verifier'' = None"
  "form_field (authn_request env fid aid asec) k = None"
  "form_field (token_request env cid cs code v) ''code_verifier'' = Some (JStr v)"
  "form_field (token_request env cid cs code v) ''code_challenge'' = None"
  by (simp_all add: form_field_def authorize_request_def authn_request_def token_request_def)

lemma scripted_flow:
  fixes tape w env lib aid asec cid cs scps
  defines "n \<equiv> length (trace w)"
  defines "run \<equiv> \<lambda>v ch. sent w (snd (actor_flow env lib (scripted tape) aid asec cid cs scps v ch w))"
  shows "(\<forall>v ch. run v ch = [authorize_request env lib cid cs scps ch]) \<or>
    (\<exists>fid. \<forall>v ch. run v ch =
       [authorize_request env lib cid cs scps ch, authn_request env fid aid asec]) \<or>
    (\<exists>code. \<forall>v ch. run v ch =
       [authorize_request env lib cid cs scps ch, token_request env cid cs code v]) \<or>
    (\<exists>fid code. \<forall>v ch. run v ch =
       [authorize_request env lib cid cs scps ch, authn_request env fid aid asec,
        token_request env cid cs code v])"
proof (cases "on_reply (tape n) step1_result")
  case (Inl e)
  then have "\<forall>v ch. run v ch = [authorize_request env lib cid cs scps ch]"
    by (simp add: run_def n_def sent_def flow_unfold scripted_def)
  then show ?thesis by blast
next
  case (Inr fd)
  obtain fid dc where fd: "fd = (fid, dc)" by (cases fd)
  show ?thesis
  proof (cases "truthy dc")
    case True
    then have "\<forall>v ch. run v ch =
       [authorize_request env lib cid cs scps ch, token_request env cid cs dc v]"
      using Inr fd
      by (simp add: run_def n_def sent_def flow_unfold scripted_def split: sum.splits)
    then show ?thesis by blast
  next
    case False
    show ?thesis
    proof (cases "on_reply (tape (Suc n)) step2_result")
      case (Inl e)
      then have "\<forall>v ch. run v ch =
         [authorize_request env lib cid cs scps ch, authn_request env fid aid asec]"
        using \<open>on_reply (tape n) step1_result = Inr fd\<close> fd False
        by (simp add: run_def n_def sent_def flow_unfold scripted_def)
      then show ?thesis by blast
    next
      case (Inr code)
      then have "\<forall>v ch. run v ch =
         [authorize_request env lib cid cs scps ch, authn_request env fid aid asec,
          token_request env cid cs code v]"
        using \<open>on_reply (tape n) step1_result = Inr fd\<close> fd False
        by (simp add: run_def n_def sent_def flow_unfold scripted_def split: sum.splits)
      then show ?thesis by blast
    qed
  qed
qed

text \<open>
  Claim C9. A flow (\<open>get_actor_token_3step\<close> is \<open>actor_flow\<close> at the generated pair)
  sends the authorization request, built from the challenge and not the verifier; then
  possibly the authentication request, built from neither; then possibly the token request,
  built from the verifier and not the challenge. Against a scripted provider the flow
  identifier and the code in these requests are the same for every verifier and challenge.
  The authorization request has no \<^verbatim>\<open>code_verifier\<close> field, the authentication request no
  form field, and the token request no \<^verbatim>\<open>code_challenge\<close> field.
\<close>

theorem pkce_confinement:
  "(\<exists>fid code. sent w (snd (actor_flow env lib p aid asec cid cs scps v ch w)) =
       flow_requests env lib aid asec cid cs scps fid code v ch) \<and>
   (\<exists>fid code. \<forall>v ch.
       sent w (snd (actor_flow env lib (scripted tape) aid asec cid cs scps v ch w)) =
       flow_requests env lib aid asec cid cs scps fid code v ch) \<and>
   form_field (authorize_request env lib cid cs scps ch) ''code_verifier'' = None \<and>
   (\<forall>fid k. form_field (authn_request env fid aid asec) k = None) \<and>
   (\<forall>code. form_field (token_request env cid cs code v) ''code_challenge'' = None)"
proof -
  have a: "\<exists>fid code. sent w (snd (actor_flow env lib p aid asec cid cs scps v ch w)) =
       flow_requests env lib aid asec cid cs scps fid code v ch"
    using actor_flow_trace [of env lib p aid asec cid cs scps v ch w]
  proof (elim disjE exE)
    assume "trace (snd (actor_flow env lib p aid asec cid cs scps v ch w)) =
       trace w @ [authorize_request env lib cid cs scps ch]"
    then show ?thesis
      by (intro exI [of _ None]) (simp add: flow_requests_def)
  next
    fix fid
    assume "trace (snd (actor_flow env lib p aid asec cid cs scps v ch w)) =
       trace w @ [authorize_request env lib cid cs scps ch, authn_request env fid aid asec]"
    then show ?thesis
      by (intro exI [of _ "Some fid"] exI [of _ None]) (simp add: flow_requests_def)
  next
    fix code
    assume "trace (snd (actor_flow env lib p aid asec cid cs scps v ch w)) =
       trace w @ [authorize_request env lib cid cs scps ch, token_request env cid cs code v]"
    then show ?thesis
      by (intro exI [of _ None] exI [of _ "Some code"]) (simp add: flow_requests_def)
  next
    fix fid code
    assume "trace (snd (actor_flow env lib p aid asec cid cs scps v ch w)) =
       trace w @ [authorize_request env lib cid cs scps ch, authn_request env fid aid asec,
                  token_request env cid cs code v]"
    then show ?thesis
      by (intro exI [of _ "Some fid"] exI [of _ "Some code"]) (simp add: flow_requests_def)
  qed
  have b: "\<exists>fid code. \<forall>v ch.
       sent w (snd (actor_flow env lib (scripted tape) aid asec cid cs scps v ch w)) =
       flow_requests env lib aid asec cid cs scps fid code v ch"
    using scripted_flow [of w env lib tape aid asec cid cs scps]
  proof (elim disjE exE)
    assume "\<forall>v ch. sent w (snd (actor_flow env lib (scripted tape) aid asec cid cs scps v ch w)) =
       [authorize_request env lib cid cs scps ch]"
    then show ?thesis
      by (intro exI [of _ None]) (simp add: flow_requests_def)
  next
    fix fid
    assume "\<forall>v ch. sent w (snd (actor_flow env lib (scripted tape) aid asec cid cs scps v ch w)) =
       [authorize_request env lib cid cs scps ch, authn_request env fid aid asec]"
    then show ?thesis
      by (intro exI [of _ "Some fid"] exI [of _ None]) (simp add: flow_requests_def)
  next
    fix code
    assume "\<forall>v ch. sent w (snd (actor_flow env lib (scripted tape) aid asec cid cs scps v ch w)) =
       [authorize_request env lib cid cs scps ch, token_request env cid cs code v]"
    then show ?thesis
      by (intro exI [of _ None] exI [of _ "Some code"]) (simp add: flow_requests_def)
  next
    fix fid code
    assume "\<forall>v ch. sent w (snd (actor_flow env lib (scripted tape) aid asec cid cs scps v ch w)) =
       [authorize_request env lib cid cs scps ch, authn_request env fid aid asec,
        token_request env cid cs code v]"
    then show ?thesis
      by (intro exI [of _ "Some fid"] exI [of _ "Some code"]) (simp add: flow_requests_def)
  qed
  show ?thesis using a b by (simp add: pkce_fields)
qed

section \<open>The scope of step 1\<close>

lemma is_step1_authorize:
  "is_step1_request env lib cid cs ch (authorize_request env lib cid cs [''openid''] ch)"
  by (simp add: is_step1_request_def form_field_def authorize_request_def basic_auth_def)

lemma flow_first:
  "\<exists>rest. trace (snd (get_actor_token_3step env lib p aid asec cid cs (Some scps) w)) =
      trace w @ authorize_request env lib cid cs scps (snd (generate_pkce lib (draws w))) # rest"
  using actor_flow_trace [of env lib p aid asec cid cs scps
      "fst (generate_pkce lib (draws w))" "snd (generate_pkce lib (draws w))"
      "w\<lparr>draws := Suc (draws w)\<rparr>"]
  unfolding get_actor_token_3step_unfold by (elim disjE exE) simp_all

lemma process_worker_extends:
  "\<exists>rs. trace (snd (process_worker env lib p orch item w)) = trace w @ rs"
proof -
  obtain out w' where pw: "process_worker env lib p orch item w = (out, w')"
    by (cases "process_worker env lib p orch item w")
  show ?thesis using process_worker_exchanges [OF pw] pw by auto
qed

lemma worker_loop_extends:
  "\<exists>rs. trace (snd (worker_loop env lib p orch items w)) = trace w @ rs"
proof (induction items arbitrary: w)
  case Nil
  then show ?case by simp
next
  case (Cons item items)
  obtain out w1 where pw: "process_worker env lib p orch item w = (out, w1)"
    by (cases "process_worker env lib p orch item w")
  obtain rs1 where rs1: "trace w1 = trace w @ rs1"
    using process_worker_extends [of env lib p orch item w] pw by auto
  obtain rs2 where "trace (snd (worker_loop env lib p orch items w1)) = trace w1 @ rs2"
    using Cons.IH [of w1] by blast
  then show ?case using pw rs1 by (auto split: prod.splits)
qed

lemma process_worker_first:
  assumes "has_credentials item"
  shows "\<exists>rest wb res. worker_flow env lib p item w = (res, wb) \<and>
     trace wb = trace w @
       authorize_request env lib (TOKEN_EXCHANGER_CLIENT_ID env)
         (TOKEN_EXCHANGER_CLIENT_SECRET env) [''openid'']
         (snd (generate_pkce lib (draws w))) # rest \<and>
     (\<exists>more. trace (snd (process_worker env lib p orch item w)) = trace wb @ more)"
proof -
  obtain res wb where f: "worker_flow env lib p item w = (res, wb)"
    by (cases "worker_flow env lib p item w")
  obtain rest where rest: "trace wb = trace w @
       authorize_request env lib (TOKEN_EXCHANGER_CLIENT_ID env)
         (TOKEN_EXCHANGER_CLIENT_SECRET env) [''openid'']
         (snd (generate_pkce lib (draws w))) # rest"
    using flow_first [of env lib p "agent_id (snd item)" "agent_secret (snd item)"
        "TOKEN_EXCHANGER_CLIENT_ID env" "TOKEN_EXCHANGER_CLIENT_SECRET env" "[''openid'']" w] f
    by auto
  have "\<exists>more. trace (snd (process_worker env lib p orch item w)) = trace wb @ more"
    using assms f
    by (cases res) (simp_all add: process_worker_unfold has_credentials_def)
  then show ?thesis using f rest by blast
qed

lemma worker_loop_reaches:
  assumes "j < length items" and "has_credentials (items ! j)"
  shows "\<exists>rest wb res.
     worker_flow env lib p (items ! j) (world_before env lib p orch items j w) = (res, wb) \<and>
     trace wb = trace (world_before env lib p orch items j w) @
       authorize_request env lib (TOKEN_EXCHANGER_CLIENT_ID env)
         (TOKEN_EXCHANGER_CLIENT_SECRET env) [''openid'']
         (snd (generate_pkce lib (draws (world_before env lib p orch items j w)))) # rest \<and>
     (\<exists>more. trace (snd (worker_loop env lib p orch items w)) = trace wb @ more)"
proof -
  let ?wa = "world_before env lib p orch items j w"
  have split: "items = take j items @ items ! j # drop (Suc j) items"
    using assms(1) by (simp add: id_take_nth_drop)
  obtain rest wb res more where f: "worker_flow env lib p (items ! j) ?wa = (res, wb)"
    and t: "trace wb = trace ?wa @
       authorize_request env lib (TOKEN_EXCHANGER_CLIENT_ID env)
         (TOKEN_EXCHANGER_CLIENT_SECRET env) [''openid'']
         (snd (generate_pkce lib (draws ?wa))) # rest"
    and m: "trace (snd (process_worker env lib p orch (items ! j) ?wa)) = trace wb @ more"
    using process_worker_first [OF assms(2), of env lib p ?wa orch] by blast
  let ?w2 = "snd (process_worker env lib p orch (items ! j) ?wa)"
  obtain rs where rs: "trace (snd (worker_loop env lib p orch (drop (Suc j) items) ?w2)) =
      trace ?w2 @ rs"
    using worker_loop_extends by blast
  have "snd (worker_loop env lib p orch (take j items @ items ! j # drop (Suc j) items) w) =
      snd (worker_loop env lib p orch (drop (Suc j) items) ?w2)"
    by (simp add: worker_loop_append world_before_def split: prod.splits)
  then have "trace (snd (worker_loop env lib p orch items w)) = trace wb @ (more @ rs)"
    using split rs m by simp
  then show ?thesis using f t by blast
qed

lemma authorize_fields:
  "form_field (authorize_request env lib cid cs scps ch) ''scope'' = Some (JStr (join_sp scps))"
  "form_field (authorize_request env lib cid cs scps ch) ''client_id'' = Some (of_env cid)"
  "form_field (authorize_request env lib cid cs scps ch) ''code_challenge'' = Some (JStr ch)"
  "form_field (authorize_request env lib cid cs scps ch) ''redirect_uri'' =
     Some (JStr (CALLBACK_URL env))"
  "form_field (authorize_request env lib cid cs scps ch) ''response_mode'' = Some (JStr ''direct'')"
  "map_of (req_headers (authorize_request env lib cid cs scps ch)) ''Authorization'' =
     Some (basic_auth lib cid cs)"
  by (simp_all add: form_field_def authorize_request_def)

text \<open>
  Claim C5, as amended. The flow of every agent identity a run processes starts with a
  request to the authorization endpoint that carries the fixed scope \<^verbatim>\<open>openid\<close>, the
  credentials of the application fronting the identity as \<^verbatim>\<open>client_id\<close> and in the
  basic authentication header, the challenge of the PKCE pair drawn for this flow, the
  callback URL and the direct response mode. The application is the orchestrator's for
  the orchestrator and the token exchanger's for every worker with credentials.
\<close>

theorem step1_request_of_run:
  assumes "main env lib p w = (res, w')"
  shows "(\<exists>result wb rest more.
            orchestrator_flow env lib p w = (result, wb) \<and>
            trace wb = trace w @ rest \<and> trace w' = trace wb @ more \<and> rest \<noteq> [] \<and>
            is_step1_request env lib (ORCHESTRATOR_CLIENT_ID env) (ORCHESTRATOR_CLIENT_SECRET env)
              (snd (generate_pkce lib (draws w))) (hd rest)) \<and>
         (\<forall>orch w1 j.
            orchestrator_flow env lib p w = (Inr orch, w1) \<and> j < length (AGENTS env) \<and>
            has_credentials (AGENTS env ! j) \<longrightarrow>
            (\<exists>result wb rest more.
               worker_flow env lib p (AGENTS env ! j)
                   (world_before env lib p orch (AGENTS env) j w1) = (result, wb) \<and>
               trace wb = trace (world_before env lib p orch (AGENTS env) j w1) @ rest \<and>
               trace w' = trace wb @ more \<and> rest \<noteq> [] \<and>
               is_step1_request env lib (TOKEN_EXCHANGER_CLIENT_ID env)
                 (TOKEN_EXCHANGER_CLIENT_SECRET env)
                 (snd (generate_pkce lib (draws (world_before env lib p orch (AGENTS env) j w1))))
                 (hd rest)))"
proof -
  obtain r w1 where f: "orchestrator_flow env lib p w = (r, w1)"
    by (cases "orchestrator_flow env lib p w")
  obtain rest0 where rest0: "trace w1 = trace w @
      authorize_request env lib (ORCHESTRATOR_CLIENT_ID env) (ORCHESTRATOR_CLIENT_SECRET env)
        [''openid''] (snd (generate_pkce lib (draws w))) # rest0"
    using flow_first [of env lib p "ORCHESTRATOR_AGENT_ID env" "ORCHESTRATOR_AGENT_SECRET env"
        "ORCHESTRATOR_CLIENT_ID env" "ORCHESTRATOR_CLIENT_SECRET env" "[''openid'']" w] f
    by auto
  have w': "w' = (case r of Inl e \<Rightarrow> w1
                  | Inr orch \<Rightarrow> snd (worker_loop env lib p orch (AGENTS env) w1))"
    using assms f by (simp add: main_unfold split: sum.splits)
  have more0: "\<exists>more. trace w' = trace w1 @ more"
  proof (cases r)
    case (Inl e)
    then show ?thesis using w' by simp
  next
    case (Inr orch)
    then show ?thesis using w' worker_loop_extends [of env lib p orch "AGENTS env" w1] by simp
  qed
  have part1: "\<exists>result wb rest more.
            orchestrator_flow env lib p w = (result, wb) \<and>
            trace wb = trace w @ rest \<and> trace w' = trace wb @ more \<and> rest \<noteq> [] \<and>
            is_step1_request env lib (ORCHESTRATOR_CLIENT_ID env) (ORCHESTRATOR_CLIENT_SECRET env)
              (snd (generate_pkce lib (draws w))) (hd rest)"
    using f rest0 more0 by (auto simp add: is_step1_authorize)
  have part2: "\<exists>result wb rest more.
               worker_flow env lib p (AGENTS env ! j)
                   (world_before env lib p orch (AGENTS env) j w1') = (result, wb) \<and>
               trace wb = trace (world_before env lib p orch (AGENTS env) j w1') @ rest \<and>
               trace w' = trace wb @ more \<and> rest \<noteq> [] \<and>
               is_step1_request env lib (TOKEN_EXCHANGER_CLIENT_ID env)
                 (TOKEN_EXCHANGER_CLIENT_SECRET env)
                 (snd (generate_pkce lib (draws (world_before env lib p orch (AGENTS env) j w1'))))
                 (hd rest)"
    if h: "orchestrator_flow env lib p w = (Inr orch, w1')" "j < length (AGENTS env)"
      "has_credentials (AGENTS env ! j)" for orch w1' j
  proof -
    have e: "r = Inr orch" "w1' = w1" using h(1) f by simp_all
    then have w'': "w' = snd (worker_loop env lib p orch (AGENTS env) w1)" using w' by simp
    show ?thesis
      using worker_loop_reaches [OF h(2,3), of env lib p orch w1] w'' e(2)
      by (auto simp add: is_step1_authorize)
  qed
  show ?thesis using part1 part2 by blast
qed

lemma trace0_nth3:
  "trace0 ! 3 =
     authorize_request env0 lib0 (Some ''te-app'') (Some ''te-secret'') [''openid''] ''vv''"
  by (simp add: trace0_def)

text \<open>
  Claim C5 as stated fails: in the run against \<open>p0\<close> the flow of the HR agent starts
  with the fourth request, whose scope is \<^verbatim>\<open>openid\<close> and not the agent's configured
  \<^verbatim>\<open>hr:read hr:write\<close>.
\<close>

theorem step1_scope_counterexample:
  "main env0 lib0 p0 w0 =
     (Completed [(''hr_agent'', Exchanged (JStr ''delegated'')),
                 (''it_agent'', Exchanged (JStr ''delegated'')),
                 (''approval_agent'', Skipped), (''booking_agent'', Skipped)],
      \<lparr>trace = trace0, draws = 3\<rparr>) \<and>
   worker_flow env0 lib0 p0 (AGENTS env0 ! 0) \<lparr>trace = take 3 trace0, draws = 1\<rparr> =
     (Inr (JStr ''tok''), \<lparr>trace = take 6 trace0, draws = 2\<rparr>) \<and>
   req_url (trace0 ! 3) = AUTHORIZE_URL env0 \<and>
   scopes (snd (AGENTS env0 ! 0)) = [''hr:read'', ''hr:write''] \<and>
   form_field (trace0 ! 3) ''scope'' = Some (JStr ''openid'') \<and>
   form_field (trace0 ! 3) ''scope'' \<noteq> Some (JStr (join_sp (scopes (snd (AGENTS env0 ! 0)))))"
  using main_p0 hr_flow_p0
  by (simp add: trace0_nth3 authorize_fields agents_env0)

theorem step1_request_of_run_witness:
  "main env0 lib0 p0 w0 =
     (Completed [(''hr_agent'', Exchanged (JStr ''delegated'')),
                 (''it_agent'', Exchanged (JStr ''delegated'')),
                 (''approval_agent'', Skipped), (''booking_agent'', Skipped)],
      \<lparr>trace = trace0, draws = 3\<rparr>) \<and>
   orchestrator_flow env0 lib0 p0 w0 =
     (Inr (JStr ''tok''), \<lparr>trace = take 3 trace0, draws = 1\<rparr>) \<and>
   0 < length (AGENTS env0) \<and> has_credentials (AGENTS env0 ! 0) \<and>
   (\<exists>result wb rest more.
      worker_flow env0 lib0 p0 (AGENTS env0 ! 0)
          (world_before env0 lib0 p0 (JStr ''tok'') (AGENTS env0) 0
             \<lparr>trace = take 3 trace0, draws = 1\<rparr>) = (result, wb) \<and>
      trace wb = take 3 trace0 @ rest \<and> trace0 = trace wb @ more \<and> rest \<noteq> [] \<and>
      is_step1_request env0 lib0 (TOKEN_EXCHANGER_CLIENT_ID env0)
        (TOKEN_EXCHANGER_CLIENT_SECRET env0) ''vv'' (hd rest)) \<and>
   is_step1_request env0 lib0 (Some ''te-app'') (Some ''te-secret'') ''vv'' (trace0 ! 3) \<and>
   is_step1_request env0 lib0 (Some ''orch-app'') (Some ''orch-secret'') ''v'' (trace0 ! 0)"
proof -
  have h: "has_credentials (AGENTS env0 ! 0)"
    by (simp add: has_credentials_def agents_env0 missing_def)
  have l: "0 < length (AGENTS env0)" by (simp add: agents_env0)
  have c: "is_step1_request env0 lib0 (Some ''te-app'') (Some ''te-secret'') ''vv'' (trace0 ! 3)"
    "is_step1_request env0 lib0 (Some ''orch-app'') (Some ''orch-secret'') ''v'' (trace0 ! 0)"
    by (simp_all add: trace0_def is_step1_authorize)
  from step1_request_of_run [OF main_p0]
  have "\<forall>orch w1 j.
            orchestrator_flow env0 lib0 p0 w0 = (Inr orch, w1) \<and> j < length (AGENTS env0) \<and>
            has_credentials (AGENTS env0 ! j) \<longrightarrow>
            (\<exists>result wb rest more.
               worker_flow env0 lib0 p0 (AGENTS env0 ! j)
                   (world_before env0 lib0 p0 orch (AGENTS env0) j w1) = (result, wb) \<and>
               trace wb = trace (world_before env0 lib0 p0 orch (AGENTS env0) j w1) @ rest \<and>
               trace \<lparr>trace = trace0, draws = 3\<rparr> = trace wb @ more \<and> rest \<noteq> [] \<and>
               is_step1_request env0 lib0 (TOKEN_EXCHANGER_CLIENT_ID env0)
                 (TOKEN_EXCHANGER_CLIENT_SECRET env0)
                 (snd (generate_pkce lib0
                    (draws (world_before env0 lib0 p0 orch (AGENTS env0) j w1))))
                 (hd rest))"
    by blast
  from this [rule_format, of "JStr ''tok''" "\<lparr>trace = take 3 trace0, draws = 1\<rparr>" 0]
    orchestrator_p0 l h
  have "\<exists>result wb rest more.
      worker_flow env0 lib0 p0 (AGENTS env0 ! 0)
          (world_before env0 lib0 p0 (JStr ''tok'') (AGENTS env0) 0
             \<lparr>trace = take 3 trace0, draws = 1\<rparr>) = (result, wb) \<and>
      trace wb = take 3 trace0 @ rest \<and> trace0 = trace wb @ more \<and> rest \<noteq> [] \<and>
      is_step1_request env0 lib0 (TOKEN_EXCHANGER_CLIENT_ID env0)
        (TOKEN_EXCHANGER_CLIENT_SECRET env0) ''vv'' (hd rest)"
    by (simp add: pkce_lib0)
  then show ?thesis using main_p0 orchestrator_p0 l h c by blast
qed

section \<open>Decoded claims that are not a dictionary\<close>

text \<open>
  What holds of the decoder and of the two token requests: the decoder gives the empty
  dictionary when there are fewer than two segments or when the library raises, and the
  parsed value otherwise; step 3 and the exchange raise on a status other than 200 and on
  a missing \<^verbatim>\<open>access_token\<close>; step 3 returns a string token as it is, and the exchange
  does when the decoded claims of the token are a dictionary.
\<close>

lemma decode_jwt_payload_malformed:
  "length (split_on CHR ''.'' s) < 2 \<Longrightarrow> decode_jwt_payload lib (JStr s) = JObj []"
  "decode_jwt_payload_try lib token = Inl e \<Longrightarrow> decode_jwt_payload lib token = JObj []"
  "decode_jwt_payload_try lib token = Inr None \<Longrightarrow> decode_jwt_payload lib token = JObj []"
  "decode_jwt_payload_try lib token = Inr (Some v) \<Longrightarrow> decode_jwt_payload lib token = v"
  by (simp_all add: decode_jwt_payload_def decode_jwt_payload_try_def)

lemma decode_jwt_payload_try_cases:
  assumes "2 \<le> length (split_on CHR ''.'' s)"
  defines "payload \<equiv> split_on CHR ''.'' s ! 1 @
      replicate (4 - length (split_on CHR ''.'' s ! 1) mod 4) CHR ''=''"
  shows "urlsafe_b64decode lib payload = Inl e \<Longrightarrow> decode_jwt_payload lib (JStr s) = JObj []"
    and "urlsafe_b64decode lib payload = Inr d \<Longrightarrow> json_loads lib d = Inl e \<Longrightarrow>
           decode_jwt_payload lib (JStr s) = JObj []"
    and "urlsafe_b64decode lib payload = Inr d \<Longrightarrow> json_loads lib d = Inr v \<Longrightarrow>
           decode_jwt_payload lib (JStr s) = v"
  using assms(1)
  by (simp_all add: decode_jwt_payload_def decode_jwt_payload_try_def payload_def Let_def)

lemma step3_result_cases:
  "status_code resp \<noteq> 200 \<Longrightarrow> step3_result resp = Inl ValueError"
  "status_code resp = 200 \<Longrightarrow> json_body resp = Some (JObj kvs) \<Longrightarrow>
     map_of kvs ''access_token'' = None \<Longrightarrow> step3_result resp = Inl TypeError"
  "status_code resp = 200 \<Longrightarrow> json_body resp = Some (JObj kvs) \<Longrightarrow>
     map_of kvs ''access_token'' = Some (JStr t) \<Longrightarrow> step3_result resp = Inr (JStr t)"
  by (simp_all add: step3_result_def response_json_def dict_get_def)

lemma exchange_result_cases:
  "status_code resp \<noteq> 200 \<Longrightarrow> exchange_result lib resp = Inl ValueError"
  "status_code resp = 200 \<Longrightarrow> json_body resp = Some (JObj kvs) \<Longrightarrow>
     map_of kvs ''access_token'' = None \<Longrightarrow> exchange_result lib resp = Inl TypeError"
  "status_code resp = 200 \<Longrightarrow> json_body resp = Some (JObj kvs) \<Longrightarrow>
     map_of kvs ''access_token'' = Some (JStr t) \<Longrightarrow>
     decode_jwt_payload lib (JStr t) = JObj claims \<Longrightarrow>
     exchange_result lib resp = Inr (JStr t)"
  by (simp_all add: exchange_result_def response_json_def dict_get_def print_token_def
      print_jwt_claims_def split: option.splits)

lemma decode_dotted:
  assumes "urlsafe_b64decode lib ''MQ=='' = Inr ''1''" and "json_loads lib ''1'' = Inr (JInt 1)"
  shows "decode_jwt_payload lib (JStr ''a.MQ.b'') = JInt 1"
  using assms
  by (simp add: decode_jwt_payload_def decode_jwt_payload_try_def numeral_2_eq_2)

lemma lib0_decoders:
  "urlsafe_b64decode lib0 ''MQ=='' = Inr ''1''" "json_loads lib0 ''1'' = Inr (JInt 1)"
  by (simp_all add: lib0_def)

text \<open>
  Claim C7. On the token \<^verbatim>\<open>a.MQ.b\<close> the second segment, padded to \<^verbatim>\<open>MQ==\<close>, is
  valid base64 of the byte \<^verbatim>\<open>1\<close>, which is valid JSON for the number 1. With a library
  that decodes them so, as CPython does, \<^verbatim>\<open>decode_jwt_payload\<close> returns that number,
  which is no mapping, and \<^verbatim>\<open>print_jwt_claims\<close> raises on it.
\<close>

theorem decode_returns_non_mapping:
  assumes "urlsafe_b64decode lib ''MQ=='' = Inr ''1''" and "json_loads lib ''1'' = Inr (JInt 1)"
  shows "decode_jwt_payload lib (JStr ''a.MQ.b'') = JInt 1 \<and>
         print_jwt_claims lib (JStr ''a.MQ.b'') = Inl AttributeError"
  by (simp add: print_jwt_claims_def decode_dotted [OF assms] dict_get_def)

theorem decode_returns_non_mapping_witness:
  "urlsafe_b64decode lib0 ''MQ=='' = Inr ''1'' \<and> json_loads lib0 ''1'' = Inr (JInt 1) \<and>
   decode_jwt_payload lib0 (JStr ''a.MQ.b'') = JInt 1 \<and>
   print_jwt_claims lib0 (JStr ''a.MQ.b'') = Inl AttributeError"
  using decode_returns_non_mapping [OF lib0_decoders] lib0_decoders by simp

text \<open>
  Claim C6. With such a library, the token exchange raises although the response is a
  success with an \<^verbatim>\<open>access_token\<close>: the token \<^verbatim>\<open>a.MQ.b\<close> is printed after it is
  received, and printing its claims raises.
\<close>

theorem exchange_raises_on_returned_token:
  assumes "urlsafe_b64decode lib ''MQ=='' = Inr ''1''" and "json_loads lib ''1'' = Inr (JInt 1)"
    and "p (trace w) (exchange_request env lib subject_token actor_token target_scopes) =
           Reply \<lparr>status_code = 200,
                  json_body = Some (JObj [(''access_token'', JStr ''a.MQ.b'')])\<rparr>"
  shows "token_exchange_downscope env lib p subject_token actor_token target_scopes w =
     (Inl AttributeError,
      w\<lparr>trace := trace w @
           [exchange_request env lib subject_token actor_token target_scopes]\<rparr>)"
  using assms(3)
  by (simp add: exchange_unfold on_reply_def exchange_result_def response_json_def
      dict_get_def print_token_def print_jwt_claims_def decode_dotted [OF assms(1,2)])

theorem exchange_raises_on_returned_token_witness:
  "urlsafe_b64decode lib0 ''MQ=='' = Inr ''1'' \<and> json_loads lib0 ''1'' = Inr (JInt 1) \<and>
   p_dotted (trace w0)
       (exchange_request env0 lib0 (JStr ''tok'') (JStr ''tok'') [''hr:read'', ''hr:write'']) =
     Reply \<lparr>status_code = 200,
            json_body = Some (JObj [(''access_token'', JStr ''a.MQ.b'')])\<rparr> \<and>
   token_exchange_downscope env0 lib0 p_dotted (JStr ''tok'') (JStr ''tok'')
       [''hr:read'', ''hr:write''] w0 =
     (Inl AttributeError,
      \<lparr>trace =
         [exchange_request env0 lib0 (JStr ''tok'') (JStr ''tok'') [''hr:read'', ''hr:write'']],
       draws = 0\<rparr>)"
proof -
  have r: "p_dotted (trace w0)
       (exchange_request env0 lib0 (JStr ''tok'') (JStr ''tok'') [''hr:read'', ''hr:write'']) =
     Reply \<lparr>status_code = 200,
            json_body = Some (JObj [(''access_token'', JStr ''a.MQ.b'')])\<rparr>"
    by (simp add: p_dotted_def ok_def)
  show ?thesis
    using exchange_raises_on_returned_token [where lib = lib0 and p = p_dotted and w = w0
        and env = env0 and subject_token = "JStr ''tok''" and actor_token = "JStr ''tok''"
        and target_scopes = "[''hr:read'', ''hr:write'']", OF lib0_decoders r]
      lib0_decoders r
    by (simp add: w0_def)
qed

end
